theory Spec2Isabelle
  imports Main "HOL-Library.Sublist"
begin

section \<open>Shared data: files, JavaScript string helpers, service responses\<close>

text \<open>
  A browser \<open>File\<close> as the handlers use it: its name and its declared MIME type
  (\<open>file.type\<close>). The bytes are only ever seen through \<open>fileToBase64\<close>.
\<close>

record File =
  file_name :: string
  file_type :: string

text \<open>\<open>const SUPPORTED_MIME_TYPES = ['image/jpeg', 'image/png', 'image/webp']\<close>,
  declared identically in every tool file.\<close>

definition SUPPORTED_MIME_TYPES :: "string list" where
  "SUPPORTED_MIME_TYPES = [''image/jpeg'', ''image/png'', ''image/webp'']"

text \<open>\<open>Array.prototype.includes\<close> on strings: strict equality with some element.\<close>

definition array_includes :: "string list \<Rightarrow> string \<Rightarrow> bool" where
  "array_includes xs x = (x \<in> set xs)"

text \<open>
  JavaScript truthiness of a \<open>string | null\<close> state variable: \<open>null\<close> (and
  \<open>undefined\<close>, both modelled by \<open>None\<close>) and the empty string are falsy.
  A \<open>File | null\<close> is truthy exactly when it is not \<open>null\<close>.
\<close>

definition truthy :: "string option \<Rightarrow> bool" where
  "truthy s = (case s of None \<Rightarrow> False | Some x \<Rightarrow> x \<noteq> [])"

text \<open>\<open>String.prototype.split(sep)\<close> for a one-character separator.\<close>

fun split_on :: "char \<Rightarrow> string \<Rightarrow> string list" where
  "split_on c [] = [[]]"
| "split_on c (x # xs) =
     (if x = c then [] # split_on c xs
      else (case split_on c xs of [] \<Rightarrow> [[x]] | y # ys \<Rightarrow> (x # y) # ys))"

text \<open>Array indexing \<open>xs[i]\<close>: \<open>undefined\<close> (here \<open>None\<close>) out of range.\<close>

definition index_opt :: "'a list \<Rightarrow> nat \<Rightarrow> 'a option" where
  "index_opt xs i = (if i < length xs then Some (xs ! i) else None)"

text \<open>
  \<open>fileToBase64\<close>: the \<open>FileReader\<close> either fails (\<open>onerror\<close>, the promise
  rejects) or delivers a data URL, of which the text after the first comma is kept:
  \<open>resolve(result.split(',')[1])\<close>.
\<close>

datatype read_result = ReadError | ReadOk string

definition fileToBase64 :: "read_result \<Rightarrow> (string option) option" where
  "fileToBase64 r =
     (case r of ReadError \<Rightarrow> None
      | ReadOk result \<Rightarrow> Some (index_opt (split_on CHR '','' result) 1))"

text \<open>
  The part of the service's answer that the handlers read:
  \<open>response.candidates?.[0]?.content?.parts?.find(p => p.inlineData)\<close>.
  Every optional link of the chain is an \<open>option\<close>.
\<close>

record inline_data =
  data :: string
  mimeType :: string

record part =
  part_text :: "string option"
  inlineData :: "inline_data option"

record content =
  parts :: "part list option"

record candidate =
  content :: "content option"

record response =
  candidates :: "candidate list option"

definition textPart :: "string \<Rightarrow> part" where
  "textPart s = \<lparr>part_text = Some s, inlineData = None\<rparr>"

definition inlinePart :: "string \<Rightarrow> string \<Rightarrow> part" where
  "inlinePart d m = \<lparr>part_text = None, inlineData = Some \<lparr>data = d, mimeType = m\<rparr>\<rparr>"

text \<open>\<open>parts.find(p => p.inlineData)\<close>: the first part that carries inline data.\<close>

definition find_inline :: "part list \<Rightarrow> part option" where
  "find_inline ps = List.find (\<lambda>p. inlineData p \<noteq> None) ps"

text \<open>The whole optional chain, followed by \<open>imagePart?.inlineData\<close>.\<close>

definition imagePart :: "response \<Rightarrow> inline_data option" where
  "imagePart r =
     (case candidates r of None \<Rightarrow> None
      | Some cs \<Rightarrow>
        (case index_opt cs 0 of None \<Rightarrow> None
         | Some c \<Rightarrow>
           (case content c of None \<Rightarrow> None
            | Some ct \<Rightarrow>
              (case parts ct of None \<Rightarrow> None
               | Some ps \<Rightarrow>
                 (case find_inline ps of None \<Rightarrow> None
                  | Some p \<Rightarrow> inlineData p)))))"

text \<open>
  An awaited call to the service either throws (the message that
  \<open>err instanceof Error ? err.message : String(err)\<close> yields) or returns a value.
\<close>

datatype 'a outcome = Throws string | Returns 'a

text \<open>Decimal rendering of an integer-valued JavaScript number in a template string.\<close>

definition digit_char :: "nat \<Rightarrow> char" where
  "digit_char d = char_of (48 + d)"

fun number_digits :: "nat \<Rightarrow> string \<Rightarrow> string" where
  "number_digits n acc =
     (if n < 10 then digit_char n # acc
      else number_digits (n div 10) (digit_char (n mod 10) # acc))"

definition number_toString :: "int \<Rightarrow> string" where
  "number_toString i =
     (if i < 0 then CHR ''-'' # number_digits (nat (- i)) [] else number_digits (nat i) [])"

text \<open>\<open>String.prototype.toLowerCase\<close> on the ASCII letters.\<close>

definition lower_char :: "char \<Rightarrow> char" where
  "lower_char c =
     (if 65 \<le> (of_char c :: nat) \<and> (of_char c :: nat) \<le> 90 then char_of ((of_char c :: nat) + 32) else c)"

definition toLowerCase :: "string \<Rightarrow> string" where
  "toLowerCase s = map lower_char s"

subsection \<open>\<open>parseInt(s, 10)\<close>\<close>

text \<open>
  ECMAScript \<open>parseInt\<close> with radix 10: leading white space is skipped, one sign is
  read, then the longest run of decimal digits; no digit gives \<open>NaN\<close> (\<open>None\<close>).
  Strings are sequences of code units below 256, so the white space characters are
  TAB, LF, VT, FF, CR, SPACE and NBSP.
\<close>

definition is_white_space :: "char \<Rightarrow> bool" where
  "is_white_space c = ((of_char c :: nat) \<in> {9, 10, 11, 12, 13, 32, 160})"

definition is_digit :: "char \<Rightarrow> bool" where
  "is_digit c = (48 \<le> (of_char c :: nat) \<and> (of_char c :: nat) \<le> 57)"

definition digit_value :: "char \<Rightarrow> int" where
  "digit_value c = int (of_char c) - 48"

definition digits_value :: "string \<Rightarrow> int" where
  "digits_value ds = foldl (\<lambda>acc c. 10 * acc + digit_value c) 0 ds"

definition parseInt :: "string \<Rightarrow> int option" where
  "parseInt s =
     (let t = dropWhile is_white_space s;
          neg = (case t of [] \<Rightarrow> False | c # _ \<Rightarrow> c = CHR ''-'');
          u = (case t of [] \<Rightarrow> []
               | c # cs \<Rightarrow> if c = CHR ''-'' \<or> c = CHR ''+'' then cs else t);
          z = takeWhile is_digit u
      in if z = [] then None
         else Some (if neg then - digits_value z else digits_value z))"

section \<open>The tools' state\<close>

text \<open>
  Every tool component holds \<open>isLoading\<close> and \<open>error\<close>; the five image-editing
  tools add the uploaded image, its base64 payload and the generated image.
\<close>

record ui_state =
  isLoading :: bool
  error :: "string option"

record tool_state = ui_state +
  originalImage :: "File option"
  originalImageBase64 :: "string option"
  generatedImageBase64 :: "string option"

section \<open>What the five image-editing tools share\<close>

text \<open>
  The request sent by \<open>ai.models.generateContent\<close>: a model name, the parts (inline
  images, then the prompt) and the response modalities asked for.
\<close>

datatype Modality = IMAGE | TEXT

record generate_request =
  model :: string
  request_parts :: "part list"
  responseModalities :: "Modality list"

definition generateContent_request :: "part list \<Rightarrow> generate_request" where
  "generateContent_request ps =
     \<lparr>model = ''gemini-2.5-flash-image-preview'', request_parts = ps,
      responseModalities = [IMAGE, TEXT]\<rparr>"

subsection \<open>\<open>handleFileChange\<close> of the outfit, beauty, social and doodle tools\<close>

text \<open>
  The four files hold the same handler, character for character. It runs in two
  stretches: up to \<open>await fileToBase64(file)\<close>, and after the read has settled. When
  the read fails the promise rejects and the rest of the handler never runs.
\<close>

definition UNSUPPORTED_FILE :: string where
  \<open>UNSUPPORTED_FILE = ''Unsupported file type. Please upload a JPEG, PNG, or WEBP image.''\<close>

definition awaits_read :: "File option \<Rightarrow> bool" where
  "awaits_read file =
     (case file of None \<Rightarrow> False
      | Some f \<Rightarrow> array_includes SUPPORTED_MIME_TYPES (file_type f))"

definition handleFileChange_sync :: "File option \<Rightarrow> 'a tool_state_scheme \<Rightarrow> 'a tool_state_scheme" where
  "handleFileChange_sync file st =
     (let st1 = st\<lparr>error := None, generatedImageBase64 := None\<rparr>
      in case file of None \<Rightarrow> st1
         | Some f \<Rightarrow>
           if \<not> array_includes SUPPORTED_MIME_TYPES (file_type f)
           then st1\<lparr>error := Some UNSUPPORTED_FILE, originalImage := None,
                    originalImageBase64 := None\<rparr>
           else st1\<lparr>originalImage := Some f\<rparr>)"

definition handleFileChange_resume :: "read_result \<Rightarrow> 'a tool_state_scheme \<Rightarrow> 'a tool_state_scheme" where
  "handleFileChange_resume r st =
     (case fileToBase64 r of None \<Rightarrow> st
      | Some base64 \<Rightarrow> st\<lparr>originalImageBase64 := base64\<rparr>)"

text \<open>The handler run to its end, nothing else happening in between.\<close>

definition handleFileChange :: "File option \<Rightarrow> read_result \<Rightarrow> 'a tool_state_scheme \<Rightarrow> 'a tool_state_scheme" where
  "handleFileChange file r st =
     (if awaits_read file then handleFileChange_resume r (handleFileChange_sync file st)
      else handleFileChange_sync file st)"

subsection \<open>\<open>handleGenerateClick\<close>: the frame common to the five tools\<close>

text \<open>
  Each handler first returns early with a message when an input is missing, then sets
  \<open>isLoading\<close> and clears \<open>error\<close> and the generated image, awaits the service inside
  \<open>try\<close>, and on the answer either stores the inline image or sets an error;
  \<open>finally\<close> resets \<open>isLoading\<close>. The tools differ in the early returns, the prompt
  and the wording of one message.
\<close>

definition begin_generate :: "'a tool_state_scheme \<Rightarrow> 'a tool_state_scheme" where
  "begin_generate st = st\<lparr>isLoading := True, error := None, generatedImageBase64 := None\<rparr>"

definition GENERATION_FAILED :: "string \<Rightarrow> string" where
  \<open>GENERATION_FAILED m = ''An error occurred while generating the image: '' @ m\<close>

definition NO_IMAGE_PHOTO :: string where
  \<open>NO_IMAGE_PHOTO =
     ''The model did not return an image. This might be due to a safety filter or an '' @
     ''issue with the input. Please try a different photo.''\<close>

definition NO_IMAGE_DOODLE :: string where
  \<open>NO_IMAGE_DOODLE =
     ''The model did not return an image. This might be due to a safety filter or an '' @
     ''issue with the input. Please try a different doodle.''\<close>

definition end_generate :: "string \<Rightarrow> response outcome \<Rightarrow> 'a tool_state_scheme \<Rightarrow> 'a tool_state_scheme" where
  "end_generate no_image outc st =
     (case outc of
        Returns r \<Rightarrow>
          (case imagePart r of
             Some d \<Rightarrow> st\<lparr>generatedImageBase64 := Some (data d)\<rparr>
           | None \<Rightarrow> st\<lparr>error := Some no_image\<rparr>)
      | Throws m \<Rightarrow> st\<lparr>error := Some (GENERATION_FAILED m)\<rparr>)\<lparr>isLoading := False\<rparr>"

definition handleGenerateClick_sync :: "('a tool_state_scheme \<Rightarrow> string option) \<Rightarrow> 'a tool_state_scheme \<Rightarrow> 'a tool_state_scheme" where
  "handleGenerateClick_sync missing st =
     (case missing st of Some m \<Rightarrow> st\<lparr>error := Some m\<rparr> | None \<Rightarrow> begin_generate st)"

definition handleGenerateClick :: "('a tool_state_scheme \<Rightarrow> string option) \<Rightarrow> string \<Rightarrow> response outcome \<Rightarrow> 'a tool_state_scheme \<Rightarrow> 'a tool_state_scheme" where
  "handleGenerateClick missing no_image outc st =
     (case missing st of Some m \<Rightarrow> st\<lparr>error := Some m\<rparr>
      | None \<Rightarrow> end_generate no_image outc (begin_generate st))"

text \<open>The single-image request: \<open>parts: [{inlineData: ...}, {text: prompt}]\<close>.\<close>

definition single_image_request :: "'a tool_state_scheme \<Rightarrow> string \<Rightarrow> generate_request option" where
  "single_image_request st prompt =
     (case (originalImage st, originalImageBase64 st) of
        (Some f, Some b) \<Rightarrow>
          Some (generateContent_request [inlinePart b (file_type f), textPart prompt])
      | _ \<Rightarrow> None)"

definition image_missing :: "string \<Rightarrow> 'a tool_state_scheme \<Rightarrow> string option" where
  "image_missing msg st =
     (if originalImage st = None \<or> \<not> truthy (originalImageBase64 st) then Some msg else None)"

section \<open>Social media style converter (SocialMediaConverter.tsx)\<close>

datatype SocialPlatform = Xiaohongshu | Instagram | Facebook | LinkedIn

record social_state = tool_state +
  platform :: SocialPlatform

definition PROMPT_Xiaohongshu :: "string" where
  \<open>PROMPT_Xiaohongshu =
     ''Recreate this image with a "Xiaohongshu" (Little Red Book) aesthetic. The style '' @
     ''should be bright, clean, and visually pleasing with a soft, airy feel. Apply an '' @
     ''aesthetic filter that enhances the colors to be slightly desaturated but warm. '' @
     ''The overall mood should be aspirational, high-quality, and feel like a lifestyle '' @
     ''blogger'' @
     [CHR 0x27] @
     ''s post. If it makes sense, add a subtle, clean border.''\<close>

definition PROMPT_Instagram :: "string" where
  \<open>PROMPT_Instagram =
     ''Transform this image to have a trendy and eye-catching "Instagram" style. Boost '' @
     ''the vibrancy and contrast to make the colors pop. Sharpen the details for a high-quality '' @
     ''look. The final image should be polished, engaging, and designed to stand out '' @
     ''on a feed. Apply a modern, popular filter that gives it a professional but authentic '' @
     ''look.''\<close>

definition PROMPT_Facebook :: "string" where
  \<open>PROMPT_Facebook =
     ''Adapt this image for "Facebook". The style should be clean, natural, and well-lit. '' @
     ''Enhance the colors to be warm and inviting, but avoid overly dramatic filters. '' @
     ''The goal is an approachable, authentic image that looks clear and shareable for '' @
     ''a general audience. The focus is on clarity and a friendly, community-oriented '' @
     ''feel.''\<close>

definition PROMPT_LinkedIn :: "string" where
  \<open>PROMPT_LinkedIn =
     ''Convert this image to a professional style suitable for "LinkedIn". The aesthetic '' @
     ''must be clean, sharp, and polished. Use a more muted, corporate color palette '' @
     ''(e.g., emphasizing blues and neutrals). If there is a person, ensure they look '' @
     ''competent and trustworthy. The background should be clean and non-distracting. '' @
     ''The overall tone must be professional and serious.''\<close>

definition social_buildPrompt :: "social_state \<Rightarrow> string" where
  "social_buildPrompt st =
     (case platform st of
        Xiaohongshu \<Rightarrow> PROMPT_Xiaohongshu
      | Instagram \<Rightarrow> PROMPT_Instagram
      | Facebook \<Rightarrow> PROMPT_Facebook
      | LinkedIn \<Rightarrow> PROMPT_LinkedIn)"

definition social_missing :: "social_state \<Rightarrow> string option" where
  \<open>social_missing = image_missing ''Please upload an image first.''\<close>


definition social_request :: "social_state \<Rightarrow> generate_request option" where
  "social_request st =
     (if social_missing st = None then single_image_request st (social_buildPrompt st) else None)"

section \<open>Outfit changer (OutfitChanger.tsx)\<close>

datatype ClothingStyle = Sportswear | EveningGown | BusinessSuit | CasualWear

definition ClothingStyle_string :: "ClothingStyle \<Rightarrow> string" where
  \<open>ClothingStyle_string s =
     (case s of Sportswear \<Rightarrow> ''Sportswear'' | EveningGown \<Rightarrow> ''Evening Gown''
      | BusinessSuit \<Rightarrow> ''Business Suit'' | CasualWear \<Rightarrow> ''Casual Wear'')\<close>

record outfit_state = tool_state +
  clothingStyle :: ClothingStyle
  clothingColor :: string

definition POSE_Sportswear :: "string" where
  \<open>POSE_Sportswear =
     ''The pose should be active and dynamic, as if they are ready for movement.''\<close>

definition POSE_EveningGown :: "string" where
  \<open>POSE_EveningGown =
     ''The pose should be elegant, graceful, and formal, suitable for a black-tie event.''\<close>

definition POSE_BusinessSuit :: "string" where
  \<open>POSE_BusinessSuit =
     ''The pose should be professional and confident, like a corporate headshot.''\<close>

definition POSE_CasualWear :: "string" where
  \<open>POSE_CasualWear =
     ''The pose should be relaxed, natural, and comfortable.''\<close>

definition poseDescription :: "ClothingStyle \<Rightarrow> string" where
  "poseDescription s =
     (case s of Sportswear \<Rightarrow> POSE_Sportswear | EveningGown \<Rightarrow> POSE_EveningGown
      | BusinessSuit \<Rightarrow> POSE_BusinessSuit | CasualWear \<Rightarrow> POSE_CasualWear)"

definition outfit_buildPrompt :: "outfit_state \<Rightarrow> string" where
  \<open>outfit_buildPrompt st =
     ''Take the person in this image and change their outfit to a '' @
     clothingColor st @
     '' '' @
     ClothingStyle_string (clothingStyle st) @
     ''. Also, adjust their pose to be more suitable for this new outfit. '' @
     poseDescription (clothingStyle st) @
     '' It is crucial to maintain the person'' @
     [CHR 0x27] @
     ''s original facial features, expression, and identity. The background should remain '' @
     ''similar to the original image but can be adjusted slightly for realism.''\<close>

text \<open>\<open>String.prototype.trim\<close>.\<close>

definition trim :: "string \<Rightarrow> string" where
  "trim s = rev (dropWhile is_white_space (rev (dropWhile is_white_space s)))"

definition outfit_missing :: "outfit_state \<Rightarrow> string option" where
  \<open>outfit_missing st =
     (case image_missing ''Please upload an image first.'' st of
        Some m \<Rightarrow> Some m
      | None \<Rightarrow>
          if trim (clothingColor st) = [] then Some ''Please enter a color for the clothing.''
          else None)\<close>

definition outfit_handleGenerateClick :: "response outcome \<Rightarrow> outfit_state \<Rightarrow> outfit_state" where
  "outfit_handleGenerateClick = handleGenerateClick outfit_missing NO_IMAGE_PHOTO"

section \<open>Beauty camera (BeautyCamera.tsx)\<close>

record beauty_state = tool_state +
  beautyLevel :: string
  faceReshape :: int
  bodySlimming :: int
  chestEnhancement :: int
  legExtension :: int
  photo_filter :: string

definition beauty_buildPrompt :: "beauty_state \<Rightarrow> string" where
  \<open>beauty_buildPrompt st =
     ''Please perform a professional-grade beautification on the person or people in '' @
     ''this portrait, following these specific instructions. It is critical that all '' @
     ''changes appear natural and realistic, and that the person'' @
     [CHR 0x27] @
     ''s core identity and facial features are preserved. Handle both single and multiple '' @
     ''faces if present. Ensure the background remains completely free of distortion.\<newline>'' @
     ''\<newline>'' @
     ''1.  **Skin Enhancement (Beauty Level: '' @
     beautyLevel st @
     '')**:\<newline>'' @
     ''    *   **Goal**: Achieve a '' @
     toLowerCase (beautyLevel st) @
     '' look.\<newline>'' @
     ''    *   **Action**: Smooth the skin to remove blemishes, acne, and oiliness, but '' @
     ''you **must** preserve natural skin texture to avoid a "plastic" look.\<newline>'' @
     ''    *   **Details**: Balance the skin tone, reduce the appearance of wrinkles '' @
     ''and dark circles under the eyes, and remove fine facial hair for a clean finish.\<newline>'' @
     ''\<newline>'' @
     ''2.  **Eye Enhancement**:\<newline>'' @
     ''    *   **Action**: Make the eyes appear brighter and more vibrant. Remove any '' @
     ''red-eye effect.\<newline>'' @
     ''    *   **Makeup**: If applicable based on the beauty level, naturally enhance '' @
     ''eye makeup, including eyeliner, eyeshadow, and eyebrows, ensuring it blends perfectly.\<newline>'' @
     ''\<newline>'' @
     ''3.  **Face Reshaping (Intensity: '' @
     number_toString (faceReshape st) @
     ''%)**:\<newline>'' @
     ''    *   **Action**: Subtly slim the face and refine the jawline by approximately '' @
     number_toString (faceReshape st) @
     ''%. The effect should be gentle and enhance the natural bone structure.\<newline>'' @
     ''    *   **Nose**: Add subtle contouring (highlights and shadows) to the nose to '' @
     ''give it a more defined and three-dimensional appearance.\<newline>'' @
     ''\<newline>'' @
     ''4.  **Body & Leg Sculpting**:\<newline>'' @
     ''    *   **Body**: Slim the waist and torso by approximately '' @
     number_toString (bodySlimming st) @
     ''%.\<newline>'' @
     ''    *   **Chest**: Enhance the bust to be fuller by approximately '' @
     number_toString (chestEnhancement st) @
     ''%, ensuring the result is natural and proportional to the body frame.\<newline>'' @
     ''    *   **Legs**: Elongate the legs by approximately '' @
     number_toString (legExtension st) @
     ''% to create a taller, more slender silhouette.\<newline>'' @
     ''    *   **Constraint**: All body modifications must be proportional and realistic, '' @
     ''without warping the background.\<newline>'' @
     ''\<newline>'' @
     ''5.  **Virtual Makeup & Filter**:\<newline>'' @
     ''    *   **Makeup**: Apply natural-looking virtual makeup, including lipstick, '' @
     ''blush, and contouring that complements the person'' @
     [CHR 0x27] @
     ''s skin tone. The opacity and color should be subtle and well-blended.\<newline>'' @
     ''    *   **Filter**: Apply a '' @
     [CHR 0x27] @
     photo_filter st @
     [CHR 0x27] @
     '' photographic filter to the final image. If '' @
     [CHR 0x27] @
     ''None'' @
     [CHR 0x27] @
     '' is selected, do not apply any filter.''\<close>

definition beauty_missing :: "beauty_state \<Rightarrow> string option" where
  \<open>beauty_missing = image_missing ''Please upload an image first.''\<close>

definition beauty_handleGenerateClick :: "response outcome \<Rightarrow> beauty_state \<Rightarrow> beauty_state" where
  "beauty_handleGenerateClick = handleGenerateClick beauty_missing NO_IMAGE_PHOTO"

section \<open>Doodle storyteller (DoodleEnhancer.tsx)\<close>

record doodle_state = tool_state +
  artStyle :: string
  panelCount :: int

text \<open>
  \<open>handlePanelCountChange\<close>: parse, replace \<open>NaN\<close> by 1, cap at 9, lift to 1,
  store. The three tests run in the source's order.
\<close>

definition clamp_panel :: "int option \<Rightarrow> int" where
  "clamp_panel parsed =
     (let v0 = (case parsed of None \<Rightarrow> 1 | Some v \<Rightarrow> v);
          v1 = (if v0 > 9 then 9 else v0);
          v2 = (if v1 < 1 then 1 else v1)
      in v2)"

definition handlePanelCountChange :: "string \<Rightarrow> doodle_state \<Rightarrow> doodle_state" where
  "handlePanelCountChange target_value st = st\<lparr>panelCount := clamp_panel (parseInt target_value)\<rparr>"

definition doodle_buildPrompt :: "doodle_state \<Rightarrow> string" where
  \<open>doodle_buildPrompt st =
     ''You are an expert storyteller and comic artist. Your task is to take this child'' @
     [CHR 0x27] @
     ''s doodle and turn it into a multi-panel comic strip story.\<newline>'' @
     ''\<newline>'' @
     ''**Instructions:**\<newline>'' @
     ''1.  **First Panel:** The provided doodle is the very first panel of the story. '' @
     ''It sets the scene and introduces the main character or subject.\<newline>'' @
     ''2.  **Story Generation:** Based on the doodle, invent a creative, coherent, and '' @
     ''imaginative story that unfolds over a total of **'' @
     number_toString (panelCount st) @
     ''** panels. The plot should become more detailed and engaging as the number of '' @
     ''panels increases. If the user requests many panels (e.g., 6-9), the story should '' @
     ''have a clear beginning, middle, and end.\<newline>'' @
     ''3.  **Art Style:** The entire comic strip, including all characters, backgrounds, '' @
     ''and panel borders, must be rendered in the **'' @
     artStyle st @
     ''** art style.\<newline>'' @
     ''4.  **Final Output:** Your final output must be a **single image** that contains '' @
     ''all '' @
     number_toString (panelCount st) @
     '' panels arranged in a logical grid format (e.g., left-to-right, top-to-bottom), '' @
     ''telling the complete story from start to finish. Do not output separate images '' @
     ''for each panel.''\<close>

definition doodle_missing :: "doodle_state \<Rightarrow> string option" where
  \<open>doodle_missing = image_missing ''Please upload a doodle first.''\<close>

definition doodle_handleGenerateClick :: "response outcome \<Rightarrow> doodle_state \<Rightarrow> doodle_state" where
  "doodle_handleGenerateClick = handleGenerateClick doodle_missing NO_IMAGE_DOODLE"

section \<open>ID photo generator (IDPhotoGenerator.tsx)\<close>

record id_state = tool_state +
  backgroundImage :: "File option"
  backgroundImageBase64 :: "string option"
  broochImage :: "File option"
  broochImageBase64 :: "string option"
  suitColor :: string
  shirtColor :: string
  hasTie :: bool
  tieColor :: string

text \<open>
  \<open>createHandleFileChange(setImage, setBase64, fileType)\<close> is instantiated three
  times; a slot names the instance, that is the pair of setters and the word put into the
  message.
\<close>

datatype id_slot = Portrait | Background | Brooch

definition fileType :: "id_slot \<Rightarrow> string" where
  \<open>fileType sl = (case sl of Portrait \<Rightarrow> ''portrait'' | Background \<Rightarrow> ''background''
                  | Brooch \<Rightarrow> ''brooch'')\<close>

definition setImage :: "id_slot \<Rightarrow> File option \<Rightarrow> id_state \<Rightarrow> id_state" where
  "setImage sl v st =
     (case sl of Portrait \<Rightarrow> st\<lparr>originalImage := v\<rparr>
      | Background \<Rightarrow> st\<lparr>backgroundImage := v\<rparr>
      | Brooch \<Rightarrow> st\<lparr>broochImage := v\<rparr>)"

definition setBase64 :: "id_slot \<Rightarrow> string option \<Rightarrow> id_state \<Rightarrow> id_state" where
  "setBase64 sl v st =
     (case sl of Portrait \<Rightarrow> st\<lparr>originalImageBase64 := v\<rparr>
      | Background \<Rightarrow> st\<lparr>backgroundImageBase64 := v\<rparr>
      | Brooch \<Rightarrow> st\<lparr>broochImageBase64 := v\<rparr>)"

definition slot_image :: "id_slot \<Rightarrow> id_state \<Rightarrow> File option" where
  "slot_image sl st =
     (case sl of Portrait \<Rightarrow> originalImage st | Background \<Rightarrow> backgroundImage st
      | Brooch \<Rightarrow> broochImage st)"

definition slot_base64 :: "id_slot \<Rightarrow> id_state \<Rightarrow> string option" where
  "slot_base64 sl st =
     (case sl of Portrait \<Rightarrow> originalImageBase64 st | Background \<Rightarrow> backgroundImageBase64 st
      | Brooch \<Rightarrow> broochImageBase64 st)"

definition id_unsupported :: "string \<Rightarrow> string" where
  \<open>id_unsupported ft =
     ''Unsupported '' @ ft @ '' file type. Please upload a JPEG, PNG, or WEBP image.''\<close>

definition createHandleFileChange_sync :: "id_slot \<Rightarrow> File option \<Rightarrow> id_state \<Rightarrow> id_state" where
  "createHandleFileChange_sync sl file st =
     (let st1 = st\<lparr>error := None\<rparr>
      in case file of None \<Rightarrow> st1
         | Some f \<Rightarrow>
           if \<not> array_includes SUPPORTED_MIME_TYPES (file_type f)
           then setBase64 sl None
                  (setImage sl None (st1\<lparr>error := Some (id_unsupported (fileType sl))\<rparr>))
           else setImage sl (Some f) st1)"

definition createHandleFileChange_resume :: "id_slot \<Rightarrow> read_result \<Rightarrow> id_state \<Rightarrow> id_state" where
  "createHandleFileChange_resume sl r st =
     (case fileToBase64 r of None \<Rightarrow> st | Some base64 \<Rightarrow> setBase64 sl base64 st)"

definition createHandleFileChange :: "id_slot \<Rightarrow> File option \<Rightarrow> read_result \<Rightarrow> id_state \<Rightarrow> id_state" where
  "createHandleFileChange sl file r st =
     (if awaits_read file
      then createHandleFileChange_resume sl r (createHandleFileChange_sync sl file st)
      else createHandleFileChange_sync sl file st)"

subsection \<open>The prompt and the request parts\<close>

definition ID_INTRO :: "string" where
  \<open>ID_INTRO =
     ''Your task is to transform the person in the first image into a highly-detailed, '' @
     ''professional ID photo based on the following precise instructions. CRITICAL: You '' @
     ''must preserve the person'' @
     [CHR 0x27] @
     ''s original facial features, hair, and expression exactly as they appear in the '' @
     ''source portrait.\<newline>'' @
     ''\<newline>''\<close>

definition ID_ATTIRE_HEADING :: "string" where
  \<open>ID_ATTIRE_HEADING =
     ''**Attire Customization:**\<newline>''\<close>

definition ID_SUIT_PRE :: string where
  \<open>ID_SUIT_PRE =
     ''- The person must be dressed in a formal **''\<close>

definition ID_SUIT_POST :: string where
  \<open>ID_SUIT_POST =
     '' suit jacket**.\<newline>''\<close>

definition id_suit_line :: "string \<Rightarrow> string" where
  "id_suit_line c = ID_SUIT_PRE @ c @ ID_SUIT_POST"

definition ID_SHIRT_PRE :: string where
  \<open>ID_SHIRT_PRE =
     ''- Underneath the jacket, they must wear a crisp **''\<close>

definition ID_SHIRT_POST :: string where
  \<open>ID_SHIRT_POST =
     '' shirt**.\<newline>''\<close>

definition id_shirt_line :: "string \<Rightarrow> string" where
  "id_shirt_line c = ID_SHIRT_PRE @ c @ ID_SHIRT_POST"

definition ID_TIE_PRE :: string where
  \<open>ID_TIE_PRE =
     ''- They must wear a **''\<close>

definition ID_TIE_POST :: string where
  \<open>ID_TIE_POST =
     '' tie**, neatly knotted.\<newline>''\<close>

definition id_tie_line :: "string \<Rightarrow> string" where
  "id_tie_line c = ID_TIE_PRE @ c @ ID_TIE_POST"

definition ID_NO_TIE_LINE :: "string" where
  \<open>ID_NO_TIE_LINE =
     ''- The shirt should be buttoned to the top, but **without a tie**.\<newline>''\<close>

definition ID_BACKGROUND_HEADING :: "string" where
  \<open>ID_BACKGROUND_HEADING =
     ''\<newline>'' @
     ''**Background Instructions:**\<newline>''\<close>

definition ID_BACKGROUND_IMAGE_LINE :: "string" where
  \<open>ID_BACKGROUND_IMAGE_LINE =
     ''- Extract the person from the first image and place them seamlessly onto the **second '' @
     ''image**, which serves as the new background.\<newline>''\<close>

definition ID_WHITE_BACKGROUND_LINE :: "string" where
  \<open>ID_WHITE_BACKGROUND_LINE =
     ''- The background must be a solid, pure **white color** (#FFFFFF), suitable for '' @
     ''an official ID photo.\<newline>''\<close>

definition ID_BROOCH_SECTION :: "string" where
  \<open>ID_BROOCH_SECTION =
     ''\<newline>'' @
     ''**Accessory Instructions (Absolute Priority):**\<newline>'' @
     ''- Take the **third image (the brooch)** and add it to the person'' @
     [CHR 0x27] @
     ''s suit.\<newline>'' @
     ''- **Placement:** The brooch MUST be placed on the **upper part of the suit jacket'' @
     [CHR 0x27] @
     ''s lapel**. This is a non-negotiable placement.\<newline>'' @
     ''- **Sizing:** The brooch MUST be rendered as a **very small and delicate** accessory. '' @
     ''It should be an elegant, subtle detail, not a large, distracting object. Its size '' @
     ''should be proportional to the lapel.\<newline>'' @
     ''- **Realism:** Ensure the brooch'' @
     [CHR 0x27] @
     ''s lighting, shadows, and angle perfectly match the suit jacket to make it look '' @
     ''completely realistic and naturally pinned on.\<newline>''\<close>

definition ID_FINAL :: "string" where
  \<open>ID_FINAL =
     ''\<newline>'' @
     ''Final result must be a high-resolution, professional, and realistic ID photograph.''\<close>

text \<open>
  \<open>handleGenerateClick\<close> grows \<open>parts\<close> and \<open>promptText\<close> side by side. An optional
  image counts as held when both the file and its payload are truthy
  (\<open>backgroundImage && backgroundImageBase64\<close>).
\<close>

definition held_image :: "File option \<Rightarrow> string option \<Rightarrow> part option" where
  "held_image img b64 =
     (case (img, b64) of
        (Some f, Some b) \<Rightarrow> if b \<noteq> [] then Some (inlinePart b (file_type f)) else None
      | _ \<Rightarrow> None)"

definition id_attire :: "id_state \<Rightarrow> string \<Rightarrow> string" where
  "id_attire st promptText =
     (let p1 = promptText @ ID_ATTIRE_HEADING;
          p2 = p1 @ id_suit_line (suitColor st);
          p3 = p2 @ id_shirt_line (shirtColor st)
      in if hasTie st then p3 @ id_tie_line (tieColor st) else p3 @ ID_NO_TIE_LINE)"

definition id_background :: "id_state \<Rightarrow> part list \<times> string \<Rightarrow> part list \<times> string" where
  "id_background st acc =
     (case acc of (ps, promptText) \<Rightarrow>
        (let p1 = promptText @ ID_BACKGROUND_HEADING
         in case held_image (backgroundImage st) (backgroundImageBase64 st) of
              Some p \<Rightarrow> (ps @ [p], p1 @ ID_BACKGROUND_IMAGE_LINE)
            | None \<Rightarrow> (ps, p1 @ ID_WHITE_BACKGROUND_LINE)))"

definition id_brooch :: "id_state \<Rightarrow> part list \<times> string \<Rightarrow> part list \<times> string" where
  "id_brooch st acc =
     (case acc of (ps, promptText) \<Rightarrow>
        (case held_image (broochImage st) (broochImageBase64 st) of
           Some p \<Rightarrow> (ps @ [p], promptText @ ID_BROOCH_SECTION)
         | None \<Rightarrow> (ps, promptText)))"

definition id_build :: "id_state \<Rightarrow> part list \<Rightarrow> part list \<times> string" where
  "id_build st parts0 =
     (case id_brooch st (id_background st (parts0, id_attire st ID_INTRO)) of
        (ps, promptText) \<Rightarrow> (ps, promptText @ ID_FINAL))"

definition id_promptText :: "id_state \<Rightarrow> string" where
  "id_promptText st = snd (id_build st [])"

definition id_missing :: "id_state \<Rightarrow> string option" where
  \<open>id_missing = image_missing ''Please upload a portrait photo first.''\<close>

definition id_request :: "id_state \<Rightarrow> generate_request option" where
  "id_request st =
     (if id_missing st \<noteq> None then None
      else case (originalImage st, originalImageBase64 st) of
        (Some f, Some b) \<Rightarrow>
          (case id_build st [inlinePart b (file_type f)] of
             (ps, promptText) \<Rightarrow> Some (generateContent_request (ps @ [textPart promptText])))
      | _ \<Rightarrow> None)"

definition id_handleGenerateClick :: "response outcome \<Rightarrow> id_state \<Rightarrow> id_state" where
  "id_handleGenerateClick = handleGenerateClick id_missing NO_IMAGE_PHOTO"

section \<open>Poster generator (component \<open>PosterGenerator\<close>)\<close>

record poster_state = ui_state +
  industry :: string
  elements :: string
  slogan :: string
  style :: string
  logoImage :: "File option"
  logoImageBase64 :: "string option"
  generatedImages :: "string list"
  loadingMessage :: string

definition UNSUPPORTED_LOGO :: string where
  \<open>UNSUPPORTED_LOGO = ''Unsupported logo file type. Please upload a JPEG, PNG, or WEBP image.''\<close>

definition handleLogoChange_sync :: "File option \<Rightarrow> poster_state \<Rightarrow> poster_state" where
  "handleLogoChange_sync file st =
     (let st1 = st\<lparr>error := None\<rparr>
      in case file of None \<Rightarrow> st1
         | Some f \<Rightarrow>
           if \<not> array_includes SUPPORTED_MIME_TYPES (file_type f)
           then st1\<lparr>error := Some UNSUPPORTED_LOGO, logoImage := None, logoImageBase64 := None\<rparr>
           else st1\<lparr>logoImage := Some f\<rparr>)"

definition handleLogoChange_resume :: "read_result \<Rightarrow> poster_state \<Rightarrow> poster_state" where
  "handleLogoChange_resume r st =
     (case fileToBase64 r of None \<Rightarrow> st | Some base64 \<Rightarrow> st\<lparr>logoImageBase64 := base64\<rparr>)"

definition handleLogoChange :: "File option \<Rightarrow> read_result \<Rightarrow> poster_state \<Rightarrow> poster_state" where
  "handleLogoChange file r st =
     (if awaits_read file then handleLogoChange_resume r (handleLogoChange_sync file st)
      else handleLogoChange_sync file st)"

definition poster_buildPrompt :: "poster_state \<Rightarrow> string" where
  \<open>poster_buildPrompt st =
     ''Create a high-impact commercial poster for the '' @
     industry st @
     '' industry.\<newline>'' @
     ''\<newline>'' @
     ''**Critical Rules for Slogan Rendering (Absolute Priority):**\<newline>'' @
     ''1.  **Language Identification:** Before any design work, you MUST first identify '' @
     ''the specific language of the slogan provided: "'' @
     slogan st @
     ''".\<newline>'' @
     ''2.  **No Translation:** Under NO circumstances should you translate the slogan. '' @
     ''It must be rendered in its original language.\<newline>'' @
     ''3.  **High-Fidelity Character Rendering:** This is the most important rule. You '' @
     ''must render the slogan onto the poster with perfect accuracy. For languages with '' @
     ''complex characters, such as **Chinese, Japanese, or Korean**, it is absolutely '' @
     ''critical that every character is rendered with its correct strokes, structure, '' @
     ''and form. Do not substitute or misrepresent any character.\<newline>'' @
     ''4.  **Aesthetic & Appropriate Typography:** Choose a font and layout for the slogan '' @
     ''that is aesthetically pleasing and culturally appropriate for the identified language. '' @
     ''For **Chinese characters**, consider a clean Heiti (sans-serif) or an elegant '' @
     ''Songti (serif) style that harmonizes with the poster'' @
     [CHR 0x27] @
     ''s overall design.\<newline>'' @
     ''\<newline>'' @
     ''**Poster Design Brief:**\<newline>'' @
     ''-   **Key Visual Elements:** The poster must prominently feature: '' @
     elements st @
     ''.\<newline>'' @
     ''-   **Style:** The overall aesthetic should be: '' @
     style st @
     ''.\<newline>'' @
     ''-   **Objective:** The poster must be visually compelling, professional, and suitable '' @
     ''for a commercial advertising campaign. Do not include any other text besides the '' @
     ''required slogan.''\<close>

definition LOGO_PROMPT :: "string" where
  \<open>LOGO_PROMPT =
     ''Take this poster (the first image) and seamlessly integrate this logo (the second '' @
     ''image) into it. Place the logo in a natural, professional-looking position where '' @
     ''it is visible but not obstructing key elements, such as a corner or an area with '' @
     ''clear space. Ensure the logo'' @
     [CHR 0x27] @
     ''s size is appropriate for the poster'' @
     [CHR 0x27] @
     ''s design and it looks like it was part of the original design.''\<close>

text \<open>
  \<open>addLogoToPoster\<close>: without a logo the poster comes back as it is; otherwise one
  service call is awaited, with no \<open>try\<close> around it, so a throwing call rejects the
  promise; an answer without inline image gives the poster back.
\<close>

definition logo_request :: "poster_state \<Rightarrow> string \<Rightarrow> generate_request option" where
  "logo_request st posterBase64 =
     (case (logoImage st, logoImageBase64 st) of
        (Some f, Some b) \<Rightarrow>
          if b = [] then None
          else Some (generateContent_request
                 [inlinePart posterBase64 ''image/png'', inlinePart b (file_type f),
                  textPart LOGO_PROMPT])
      | _ \<Rightarrow> None)"

definition addLogoToPoster :: "poster_state \<Rightarrow> response outcome \<Rightarrow> string \<Rightarrow> string outcome" where
  "addLogoToPoster st outc posterBase64 =
     (if \<not> truthy (logoImageBase64 st) \<or> logoImage st = None then Returns posterBase64
      else case outc of
             Throws m \<Rightarrow> Throws m
           | Returns r \<Rightarrow>
               (case imagePart r of Some d \<Rightarrow> Returns (data d) | None \<Rightarrow> Returns posterBase64))"

text \<open>
  \<open>Promise.all\<close>: the values in order when every promise fulfils, a rejection as soon
  as one rejects. The promises are listed by slot; of several rejections the model
  reports the one of the lowest slot.
\<close>

fun promise_all :: "'a outcome list \<Rightarrow> 'a list outcome" where
  "promise_all [] = Returns []"
| "promise_all (Throws m # _) = Throws m"
| "promise_all (Returns x # rest) =
     (case promise_all rest of Throws m \<Rightarrow> Throws m | Returns xs \<Rightarrow> Returns (x # xs))"

definition NO_POSTERS :: string where
  \<open>NO_POSTERS =
     ''The model did not return any images. This might be due to a safety filter. '' @
     ''Please try adjusting your prompt.''\<close>

definition poster_missing :: "poster_state \<Rightarrow> string option" where
  \<open>poster_missing st =
     (if industry st = [] \<or> elements st = [] \<or> slogan st = [] \<or> style st = []
      then Some ''Please fill out all fields.'' else None)\<close>

definition poster_begin :: "poster_state \<Rightarrow> poster_state" where
  "poster_begin st = st\<lparr>isLoading := True, error := None, generatedImages := []\<rparr>"

text \<open>
  The body of \<open>try\<close>: step 1 (\<open>generateImages\<close>, whose answer may lack the list of
  images), then, when a logo payload is held, step 2 over every poster. The result is the
  list handed to \<open>setGeneratedImages\<close> or the exception that reaches \<open>catch\<close>.
  \<open>step2 i\<close> is what the service does on the call for poster \<open>i\<close>.
\<close>

definition poster_try :: "poster_state \<Rightarrow> string list option outcome \<Rightarrow> (nat \<Rightarrow> response outcome) \<Rightarrow> string list outcome" where
  "poster_try st step1 step2 =
     (case step1 of
        Throws m \<Rightarrow> Throws m
      | Returns None \<Rightarrow> Throws NO_POSTERS
      | Returns (Some imgs) \<Rightarrow>
          if imgs = [] then Throws NO_POSTERS
          else if truthy (logoImageBase64 st)
          then promise_all (map (\<lambda>(i, p). addLogoToPoster st (step2 i) p) (enumerate 0 imgs))
          else Returns imgs)"

definition POSTER_FAILED :: "string \<Rightarrow> string" where
  \<open>POSTER_FAILED m = ''An error occurred: '' @ m\<close>

definition poster_end :: "string list outcome \<Rightarrow> poster_state \<Rightarrow> poster_state" where
  "poster_end res st =
     (case res of
        Returns posters \<Rightarrow> st\<lparr>generatedImages := posters\<rparr>
      | Throws m \<Rightarrow> st\<lparr>error := Some (POSTER_FAILED m)\<rparr>)\<lparr>isLoading := False, loadingMessage := []\<rparr>"

definition poster_handleGenerateClick :: "string list option outcome \<Rightarrow> (nat \<Rightarrow> response outcome) \<Rightarrow> poster_state \<Rightarrow> poster_state" where
  "poster_handleGenerateClick step1 step2 st =
     (case poster_missing st of
        Some m \<Rightarrow> st\<lparr>error := Some m\<rparr>
      | None \<Rightarrow> poster_end (poster_try st step1 step2) (poster_begin st))"

section \<open>Example inputs\<close>

text \<open>Files, reads and answers, and the components' initial states (the \<open>useState\<close>
  defaults), used where a statement is checked on a concrete run.\<close>

definition jpeg_file :: File where
  "jpeg_file = \<lparr>file_name = ''portrait.jpg'', file_type = ''image/jpeg''\<rparr>"

definition png_file :: File where
  "png_file = \<lparr>file_name = ''brooch.png'', file_type = ''image/png''\<rparr>"

definition gif_file :: File where
  "gif_file = \<lparr>file_name = ''clip.gif'', file_type = ''image/gif''\<rparr>"

definition jpeg_read :: read_result where
  "jpeg_read = ReadOk ''data:image/jpeg;base64,AAAA''"

definition png_read :: read_result where
  "png_read = ReadOk ''data:image/png;base64,CCCC''"

definition image_response :: response where
  "image_response =
     \<lparr>candidates = Some [\<lparr>content = Some \<lparr>parts =
        Some [textPart ''Here you are.'', inlinePart ''BBBB'' ''image/png'']\<rparr>\<rparr>]\<rparr>"

definition social_init :: social_state where
  "social_init =
     \<lparr>isLoading = False, error = None, originalImage = None, originalImageBase64 = None,
      generatedImageBase64 = None, platform = Instagram\<rparr>"

definition id_init :: id_state where
  "id_init =
     \<lparr>isLoading = False, error = None, originalImage = None, originalImageBase64 = None,
      generatedImageBase64 = None, backgroundImage = None, backgroundImageBase64 = None,
      broochImage = None, broochImageBase64 = None, suitColor = ''black'',
      shirtColor = ''white'', hasTie = True, tieColor = ''deep blue''\<rparr>"

definition social_loaded :: social_state where
  "social_loaded = handleFileChange (Some jpeg_file) jpeg_read social_init"

definition id_loaded :: id_state where
  "id_loaded = createHandleFileChange Portrait (Some jpeg_file) jpeg_read id_init"

definition id_done :: id_state where
  "id_done = id_handleGenerateClick (Returns image_response) id_loaded"

definition id_with_brooch :: id_state where
  "id_with_brooch = createHandleFileChange Brooch (Some png_file) png_read id_loaded"

definition outfit_init :: outfit_state where
  "outfit_init =
     \<lparr>isLoading = False, error = None, originalImage = None, originalImageBase64 = None,
      generatedImageBase64 = None, clothingStyle = CasualWear, clothingColor = ''blue''\<rparr>"

definition beauty_init :: beauty_state where
  "beauty_init =
     \<lparr>isLoading = False, error = None, originalImage = None, originalImageBase64 = None,
      generatedImageBase64 = None, beautyLevel = ''Natural'', faceReshape = 15,
      bodySlimming = 20, chestEnhancement = 10, legExtension = 20, photo_filter = ''None''\<rparr>"

definition doodle_init :: doodle_state where
  "doodle_init =
     \<lparr>isLoading = False, error = None, originalImage = None, originalImageBase64 = None,
      generatedImageBase64 = None, artStyle = ''Pop Art'', panelCount = 3\<rparr>"

definition poster_init :: poster_state where
  "poster_init =
     \<lparr>isLoading = False, error = None, industry = ''Technology'',
      elements = ''A glowing brain, circuit patterns, people collaborating'',
      slogan = ''Innovate the Future'', style = ''Modern and minimalist'',
      logoImage = None, logoImageBase64 = None, generatedImages = [], loadingMessage = []\<rparr>"

section \<open>The tools as event-driven machines\<close>

text \<open>
  Between two \<open>await\<close>s a handler runs without interruption; while it waits, any other
  event of the page may be handled. A run is a list of events, each applied to the
  component state together with the bookkeeping of what is still awaited. An event that
  cannot happen in a configuration (a click on a disabled button, the settling of a
  promise that is not pending) yields \<open>None\<close>.
\<close>

fun run :: "('e \<Rightarrow> 'c \<Rightarrow> 'c option) \<Rightarrow> 'e list \<Rightarrow> 'c \<Rightarrow> 'c option" where
  "run step [] c = Some c"
| "run step (e # es) c = (case step e c of None \<Rightarrow> None | Some c' \<Rightarrow> run step es c')"

subsection \<open>Outfit, beauty, social and doodle tools\<close>

text \<open>
  \<open>view\<close> is the component state, \<open>reads\<close> the number of \<open>fileToBase64\<close> promises
  and \<open>requests\<close> the number of \<open>generateContent\<close> promises still pending. The file
  input is never disabled; the generate button is disabled by
  \<open>disabled={!originalImage || isLoading}\<close>.
\<close>

record 'st tool_config =
  view :: 'st
  reads :: nat
  requests :: nat

datatype 'i tool_event =
    SelectFile "File option"
  | ReadSettled read_result
  | Input 'i
  | ClickGenerate
  | ServiceSettled "response outcome"

definition tool_step ::
  "('i \<Rightarrow> 'a tool_state_scheme \<Rightarrow> 'a tool_state_scheme) \<Rightarrow> ('a tool_state_scheme \<Rightarrow> string option)
   \<Rightarrow> string \<Rightarrow> 'i tool_event \<Rightarrow> 'a tool_state_scheme tool_config
   \<Rightarrow> 'a tool_state_scheme tool_config option" where
  "tool_step set_input missing no_image ev c =
     (case ev of
        SelectFile file \<Rightarrow>
          Some (c\<lparr>view := handleFileChange_sync file (view c),
                 reads := (if awaits_read file then Suc (reads c) else reads c)\<rparr>)
      | ReadSettled r \<Rightarrow>
          if reads c = 0 then None
          else Some (c\<lparr>view := handleFileChange_resume r (view c), reads := reads c - 1\<rparr>)
      | Input i \<Rightarrow> Some (c\<lparr>view := set_input i (view c)\<rparr>)
      | ClickGenerate \<Rightarrow>
          if originalImage (view c) = None \<or> isLoading (view c) then None
          else Some (c\<lparr>view := handleGenerateClick_sync missing (view c),
                      requests := (if missing (view c) = None then Suc (requests c)
                                   else requests c)\<rparr>)
      | ServiceSettled outc \<Rightarrow>
          if requests c = 0 then None
          else Some (c\<lparr>view := end_generate no_image outc (view c),
                      requests := requests c - 1\<rparr>))"

definition start :: "'st \<Rightarrow> 'st tool_config" where
  "start st = \<lparr>view = st, reads = 0, requests = 0\<rparr>"

datatype social_input = SetPlatform SocialPlatform

definition social_set :: "social_input \<Rightarrow> social_state \<Rightarrow> social_state" where
  "social_set i st = (case i of SetPlatform p \<Rightarrow> st\<lparr>platform := p\<rparr>)"

definition social_step :: "social_input tool_event \<Rightarrow> social_state tool_config \<Rightarrow> social_state tool_config option" where
  "social_step = tool_step social_set social_missing NO_IMAGE_PHOTO"

datatype outfit_input = SetClothingStyle ClothingStyle | SetClothingColor string

definition outfit_set :: "outfit_input \<Rightarrow> outfit_state \<Rightarrow> outfit_state" where
  "outfit_set i st =
     (case i of SetClothingStyle s \<Rightarrow> st\<lparr>clothingStyle := s\<rparr>
      | SetClothingColor v \<Rightarrow> st\<lparr>clothingColor := v\<rparr>)"

definition outfit_step :: "outfit_input tool_event \<Rightarrow> outfit_state tool_config \<Rightarrow> outfit_state tool_config option" where
  "outfit_step = tool_step outfit_set outfit_missing NO_IMAGE_PHOTO"

datatype beauty_input =
    SetBeautyLevel string | SetFaceReshape int | SetBodySlimming int
  | SetChestEnhancement int | SetLegExtension int | SetFilter string

definition beauty_set :: "beauty_input \<Rightarrow> beauty_state \<Rightarrow> beauty_state" where
  "beauty_set i st =
     (case i of SetBeautyLevel v \<Rightarrow> st\<lparr>beautyLevel := v\<rparr>
      | SetFaceReshape n \<Rightarrow> st\<lparr>faceReshape := n\<rparr>
      | SetBodySlimming n \<Rightarrow> st\<lparr>bodySlimming := n\<rparr>
      | SetChestEnhancement n \<Rightarrow> st\<lparr>chestEnhancement := n\<rparr>
      | SetLegExtension n \<Rightarrow> st\<lparr>legExtension := n\<rparr>
      | SetFilter v \<Rightarrow> st\<lparr>photo_filter := v\<rparr>)"

definition beauty_step :: "beauty_input tool_event \<Rightarrow> beauty_state tool_config \<Rightarrow> beauty_state tool_config option" where
  "beauty_step = tool_step beauty_set beauty_missing NO_IMAGE_PHOTO"

datatype doodle_input = SetArtStyle string | PanelCountChange string

definition doodle_set :: "doodle_input \<Rightarrow> doodle_state \<Rightarrow> doodle_state" where
  "doodle_set i st =
     (case i of SetArtStyle v \<Rightarrow> st\<lparr>artStyle := v\<rparr>
      | PanelCountChange v \<Rightarrow> handlePanelCountChange v st)"

definition doodle_step :: "doodle_input tool_event \<Rightarrow> doodle_state tool_config \<Rightarrow> doodle_state tool_config option" where
  "doodle_step = tool_step doodle_set doodle_missing NO_IMAGE_DOODLE"

subsection \<open>ID photo tool\<close>

text \<open>Three file inputs, each with its own pending reads; otherwise as above.\<close>

datatype id_event =
    IdSelectFile id_slot "File option"
  | IdReadSettled id_slot read_result
  | SetSuitColor string
  | SetShirtColor string
  | SetHasTie bool
  | SetTieColor string
  | IdClickGenerate
  | IdServiceSettled "response outcome"

record id_config =
  id_view :: id_state
  id_reads :: "id_slot list"
  id_requests :: nat

definition id_step :: "id_event \<Rightarrow> id_config \<Rightarrow> id_config option" where
  "id_step ev c =
     (case ev of
        IdSelectFile sl file \<Rightarrow>
          Some (c\<lparr>id_view := createHandleFileChange_sync sl file (id_view c),
                 id_reads := (if awaits_read file then id_reads c @ [sl] else id_reads c)\<rparr>)
      | IdReadSettled sl r \<Rightarrow>
          if sl \<notin> set (id_reads c) then None
          else Some (c\<lparr>id_view := createHandleFileChange_resume sl r (id_view c),
                      id_reads := remove1 sl (id_reads c)\<rparr>)
      | SetSuitColor v \<Rightarrow> Some (c\<lparr>id_view := (id_view c)\<lparr>suitColor := v\<rparr>\<rparr>)
      | SetShirtColor v \<Rightarrow> Some (c\<lparr>id_view := (id_view c)\<lparr>shirtColor := v\<rparr>\<rparr>)
      | SetHasTie v \<Rightarrow> Some (c\<lparr>id_view := (id_view c)\<lparr>hasTie := v\<rparr>\<rparr>)
      | SetTieColor v \<Rightarrow> Some (c\<lparr>id_view := (id_view c)\<lparr>tieColor := v\<rparr>\<rparr>)
      | IdClickGenerate \<Rightarrow>
          if originalImage (id_view c) = None \<or> isLoading (id_view c) then None
          else Some (c\<lparr>id_view := handleGenerateClick_sync id_missing (id_view c),
                      id_requests := (if id_missing (id_view c) = None then Suc (id_requests c)
                                      else id_requests c)\<rparr>)
      | IdServiceSettled outc \<Rightarrow>
          if id_requests c = 0 then None
          else Some (c\<lparr>id_view := end_generate NO_IMAGE_PHOTO outc (id_view c),
                      id_requests := id_requests c - 1\<rparr>))"

definition id_start :: id_config where
  "id_start = \<lparr>id_view = id_init, id_reads = [], id_requests = 0\<rparr>"

subsection \<open>Poster tool\<close>

text \<open>
  A click starts a process that awaits step 1 and then, with a logo payload, step 2.
  The process works on the state of the render in which the button was clicked: the
  logo it composites is the one held at the click. The button is disabled by
  \<open>disabled={isLoading}\<close>.
\<close>

datatype poster_process = AwaitStep1 poster_state | AwaitStep2 poster_state "string list"

datatype poster_event =
    LogoSelect "File option"
  | LogoReadSettled read_result
  | SetIndustry string
  | SetElements string
  | SetSlogan string
  | SetStyle string
  | PosterClick
  | Step1Settled nat "string list option outcome"
  | Step2Settled nat "nat \<Rightarrow> response outcome"

record poster_config =
  poster_view :: poster_state
  poster_reads :: nat
  poster_processes :: "poster_process list"

definition drop_process :: "nat \<Rightarrow> poster_process list \<Rightarrow> poster_process list" where
  "drop_process k ps = take k ps @ drop (Suc k) ps"

definition poster_finish :: "nat \<Rightarrow> string list outcome \<Rightarrow> poster_config \<Rightarrow> poster_config" where
  "poster_finish k res c =
     c\<lparr>poster_view := poster_end res (poster_view c),
       poster_processes := drop_process k (poster_processes c)\<rparr>"

definition poster_step :: "poster_event \<Rightarrow> poster_config \<Rightarrow> poster_config option" where
  \<open>poster_step ev c =
     (case ev of
        LogoSelect file \<Rightarrow>
          Some (c\<lparr>poster_view := handleLogoChange_sync file (poster_view c),
                 poster_reads := (if awaits_read file then Suc (poster_reads c)
                                  else poster_reads c)\<rparr>)
      | LogoReadSettled r \<Rightarrow>
          if poster_reads c = 0 then None
          else Some (c\<lparr>poster_view := handleLogoChange_resume r (poster_view c),
                      poster_reads := poster_reads c - 1\<rparr>)
      | SetIndustry v \<Rightarrow> Some (c\<lparr>poster_view := (poster_view c)\<lparr>industry := v\<rparr>\<rparr>)
      | SetElements v \<Rightarrow> Some (c\<lparr>poster_view := (poster_view c)\<lparr>elements := v\<rparr>\<rparr>)
      | SetSlogan v \<Rightarrow> Some (c\<lparr>poster_view := (poster_view c)\<lparr>slogan := v\<rparr>\<rparr>)
      | SetStyle v \<Rightarrow> Some (c\<lparr>poster_view := (poster_view c)\<lparr>style := v\<rparr>\<rparr>)
      | PosterClick \<Rightarrow>
          if isLoading (poster_view c) then None
          else (case poster_missing (poster_view c) of
                  Some m \<Rightarrow> Some (c\<lparr>poster_view := (poster_view c)\<lparr>error := Some m\<rparr>\<rparr>)
                | None \<Rightarrow>
                    Some (c\<lparr>poster_view := (poster_begin (poster_view c))
                              \<lparr>loadingMessage :=
                                 (if logoImage (poster_view c) \<noteq> None
                                  then ''Step 1/2: Generating posters...''
                                  else ''Generating posters...'')\<rparr>,
                            poster_processes :=
                              poster_processes c @ [AwaitStep1 (poster_view c)]\<rparr>))
      | Step1Settled k step1 \<Rightarrow>
          (case index_opt (poster_processes c) k of
             Some (AwaitStep1 st0) \<Rightarrow>
               (case step1 of
                  Throws m \<Rightarrow> Some (poster_finish k (Throws m) c)
                | Returns None \<Rightarrow> Some (poster_finish k (Throws NO_POSTERS) c)
                | Returns (Some imgs) \<Rightarrow>
                    if imgs = [] then Some (poster_finish k (Throws NO_POSTERS) c)
                    else if truthy (logoImageBase64 st0)
                    then Some (c\<lparr>poster_view := (poster_view c)
                                   \<lparr>loadingMessage := ''Step 2/2: Adding your logo...''\<rparr>,
                                 poster_processes :=
                                   (poster_processes c)[k := AwaitStep2 st0 imgs]\<rparr>)
                    else Some (poster_finish k (Returns imgs) c))
           | _ \<Rightarrow> None)
      | Step2Settled k step2 \<Rightarrow>
          (case index_opt (poster_processes c) k of
             Some (AwaitStep2 st0 imgs) \<Rightarrow>
               Some (poster_finish k
                 (promise_all (map (\<lambda>(i, p). addLogoToPoster st0 (step2 i) p) (enumerate 0 imgs)))
                 c)
           | _ \<Rightarrow> None))\<close>

definition poster_start :: poster_config where
  "poster_start = \<lparr>poster_view = poster_init, poster_reads = 0, poster_processes = []\<rparr>"

text \<open>The runs used below.\<close>

definition id_trace_rejected_in_flight :: "id_event list" where
  "id_trace_rejected_in_flight =
     [IdSelectFile Portrait (Some jpeg_file), IdReadSettled Portrait jpeg_read, IdClickGenerate,
      IdSelectFile Background (Some gif_file)]"

definition id_trace_rejected_after_success :: "id_event list" where
  "id_trace_rejected_after_success =
     [IdSelectFile Portrait (Some jpeg_file), IdReadSettled Portrait jpeg_read, IdClickGenerate,
      IdServiceSettled (Returns image_response), IdSelectFile Background (Some gif_file)]"

definition id_loading_with_error :: id_config where
  "id_loading_with_error =
     \<lparr>id_view = id_loaded\<lparr>isLoading := True, error := Some (id_unsupported ''background'')\<rparr>,
      id_reads = [], id_requests = 1\<rparr>"

definition id_result_with_error :: id_config where
  "id_result_with_error =
     \<lparr>id_view = id_done\<lparr>error := Some (id_unsupported ''background'')\<rparr>,
      id_reads = [], id_requests = 0\<rparr>"

definition tool_trace :: "'i tool_event list" where
  "tool_trace =
     [SelectFile (Some jpeg_file), ReadSettled jpeg_read, ClickGenerate,
      ServiceSettled (Returns image_response)]"

definition tool_done :: "'a tool_state_scheme \<Rightarrow> 'a tool_state_scheme tool_config" where
  "tool_done st =
     \<lparr>view = st\<lparr>originalImage := Some jpeg_file, originalImageBase64 := Some ''AAAA'',
               generatedImageBase64 := Some ''BBBB''\<rparr>,
      reads = 0, requests = 0\<rparr>"

definition id_trace :: "id_event list" where
  "id_trace =
     [IdSelectFile Portrait (Some jpeg_file), IdReadSettled Portrait jpeg_read, IdClickGenerate,
      IdServiceSettled (Returns image_response)]"

definition poster_trace :: "poster_event list" where
  "poster_trace = [PosterClick, Step1Settled 0 (Returns (Some [''P1'', ''P2'', ''P3'']))]"

definition poster_done :: poster_config where
  "poster_done =
     \<lparr>poster_view = poster_init\<lparr>generatedImages := [''P1'', ''P2'', ''P3'']\<rparr>,
      poster_reads = 0, poster_processes = []\<rparr>"


text \<open>The two things that must not be seen together: a request in flight and a
  generated result on display.\<close>

definition busy_with_result :: "'a tool_state_scheme \<Rightarrow> bool" where
  "busy_with_result st = (isLoading st \<and> truthy (generatedImageBase64 st))"

definition poster_busy_with_result :: "poster_state \<Rightarrow> bool" where
  "poster_busy_with_result st = (isLoading st \<and> generatedImages st \<noteq> [])"

text \<open>A poster run with a logo held, and what the service does in step 2.\<close>

definition poster_with_logo :: poster_state where
  "poster_with_logo = handleLogoChange (Some png_file) png_read poster_init"

definition three_posters :: "string list option outcome" where
  "three_posters = Returns (Some [''P1'', ''P2'', ''P3''])"

definition second_logo_call_throws :: "nat \<Rightarrow> response outcome" where
  "second_logo_call_throws i = (if i = 1 then Throws ''503 Service Unavailable'' else Returns image_response)"

definition text_response :: response where
  "text_response =
     \<lparr>candidates = Some [\<lparr>content = Some \<lparr>parts = Some [textPart ''Sorry.'']\<rparr>\<rparr>]\<rparr>"

definition second_logo_call_refused :: "nat \<Rightarrow> response outcome" where
  "second_logo_call_refused i = (if i = 1 then Returns text_response else Returns image_response)"






section \<open>Results\<close>

subsection \<open>Panel count\<close>

lemma clamp_panel_range: "1 \<le> clamp_panel p \<and> clamp_panel p \<le> 9"
  by (simp add: clamp_panel_def Let_def split: option.split)

lemma parseInt_digits:
  assumes ne: "ds \<noteq> []" and dig: "\<forall>c\<in>set ds. is_digit c"
  shows "parseInt ds = Some (digits_value ds)"
proof -
  from ne obtain c cs where ds: "ds = c # cs" by (cases ds) auto
  with dig have c: "is_digit c" by simp
  then have nws: "\<not> is_white_space c"
    by (auto simp: is_digit_def is_white_space_def)
  from c have nsign: "c \<noteq> CHR ''-''" "c \<noteq> CHR ''+''"
    by (auto simp: is_digit_def)
  from dig have tw: "takeWhile is_digit ds = ds"
    by (simp add: takeWhile_eq_all_conv)
  from nws ds have dw: "dropWhile is_white_space ds = ds" by simp
  show ?thesis
    using ne nsign tw unfolding parseInt_def dw Let_def
    by (simp add: ds)
qed

text \<open>
  C4 (as the code has it). Whatever string the panel-count field delivers, the handler
  stores a panel count between 1 and 9 and nothing else of the state changes (no entry is
  refused and no error is raised). The number considered is the one \<open>parseInt\<close> reads:
  the integer at the start of the entry, after white space and one sign, the rest of the
  entry being ignored. With no such integer 1 is stored; an integer above 9 is stored as
  9, one below 1 as 1, one from 1 to 9 as itself. For an entry made of decimal digits
  only, that integer is the number entered, so 15 is stored as 9 and 0 as 1.
\<close>

theorem C4_panel_count_normalized:
  "1 \<le> panelCount (handlePanelCountChange s st)
   \<and> panelCount (handlePanelCountChange s st) \<le> 9
   \<and> handlePanelCountChange s st = st\<lparr>panelCount := panelCount (handlePanelCountChange s st)\<rparr>
   \<and> panelCount (handlePanelCountChange s st) =
       (case parseInt s of None \<Rightarrow> 1
        | Some v \<Rightarrow> if v > 9 then 9 else if v < 1 then 1 else v)
   \<and> (ds \<noteq> [] \<and> (\<forall>c\<in>set ds. is_digit c) \<longrightarrow>
        panelCount (handlePanelCountChange ds st) =
          (if digits_value ds > 9 then 9 else if digits_value ds < 1 then 1 else digits_value ds))
   \<and> panelCount (handlePanelCountChange ''15'' st) = 9
   \<and> panelCount (handlePanelCountChange ''0'' st) = 1
   \<and> panelCount (handlePanelCountChange ''abc'' st) = 1
   \<and> panelCount (handlePanelCountChange '''' st) = 1"
proof -
  have r: "1 \<le> clamp_panel (parseInt s) \<and> clamp_panel (parseInt s) \<le> 9"
    by (rule clamp_panel_range)
  have c: "clamp_panel (parseInt s) =
      (case parseInt s of None \<Rightarrow> 1 | Some v \<Rightarrow> if v > 9 then 9 else if v < 1 then 1 else v)"
    by (simp add: clamp_panel_def Let_def split: option.split)
  have d: "ds \<noteq> [] \<and> (\<forall>c\<in>set ds. is_digit c) \<longrightarrow>
        clamp_panel (parseInt ds) =
          (if digits_value ds > 9 then 9 else if digits_value ds < 1 then 1 else digits_value ds)"
    by (auto simp: parseInt_digits clamp_panel_def Let_def)
  have p15: "parseInt ''15'' = Some 15"
    by (simp add: parseInt_def Let_def is_white_space_def is_digit_def digits_value_def digit_value_def)
  have p0: "parseInt ''0'' = Some 0"
    by (simp add: parseInt_def Let_def is_white_space_def is_digit_def digits_value_def digit_value_def)
  have pabc: "parseInt ''abc'' = None"
    by (simp add: parseInt_def Let_def is_white_space_def is_digit_def)
  have pe: "parseInt '''' = None"
    by (simp add: parseInt_def Let_def)
  show ?thesis
    using r c d by (simp add: handlePanelCountChange_def p15 p0 pabc pe clamp_panel_def)
qed

theorem C4_panel_count_normalized_witness:
  "''12'' \<noteq> [] \<and> is_digit CHR ''1'' \<and> is_digit CHR ''2'' \<and> digits_value ''12'' = 12
   \<and> panelCount (handlePanelCountChange ''12'' doodle_init) = 9"
  using C4_panel_count_normalized [where ds = "''12''" and st = doodle_init and s = "''12''"]
  by (simp add: is_digit_def digits_value_def digit_value_def)

text \<open>
  The entry 1e2, a number the field accepts and which stands for 100, is stored as 1, not
  as 9: \<open>parseInt\<close> reads the 1 and stops at the letter. The string 5abc, not a number,
  is stored as 5, not as 1.
\<close>

theorem C4_counterexample:
  "parseInt ''1e2'' = Some 1
   \<and> panelCount (handlePanelCountChange ''1e2'' doodle_init) = 1
   \<and> parseInt ''5abc'' = Some 5
   \<and> panelCount (handlePanelCountChange ''5abc'' doodle_init) = 5"
  by (simp add: handlePanelCountChange_def clamp_panel_def parseInt_def Let_def is_white_space_def
      is_digit_def digits_value_def digit_value_def)

subsection \<open>Result handler\<close>

lemmas handler_defs = handleGenerateClick_def end_generate_def begin_generate_def





lemmas file_defs = handleFileChange_def handleFileChange_sync_def handleFileChange_resume_def
  awaits_read_def array_includes_def SUPPORTED_MIME_TYPES_def fileToBase64_def index_opt_def

lemmas logo_defs = handleLogoChange_def handleLogoChange_sync_def handleLogoChange_resume_def

lemmas id_file_defs = createHandleFileChange_def createHandleFileChange_sync_def
  createHandleFileChange_resume_def setImage_def setBase64_def slot_image_def slot_base64_def

lemmas example_defs = jpeg_file_def png_file_def gif_file_def jpeg_read_def png_read_def
  image_response_def social_init_def id_init_def

lemma social_loaded_eq:
  "social_loaded = social_init\<lparr>originalImage := Some jpeg_file, originalImageBase64 := Some ''AAAA''\<rparr>"
  by (simp add: social_loaded_def file_defs example_defs)

lemma id_loaded_eq:
  "id_loaded = id_init\<lparr>originalImage := Some jpeg_file, originalImageBase64 := Some ''AAAA''\<rparr>"
  by (simp add: id_loaded_def file_defs id_file_defs example_defs)

lemma imagePart_image_response:
  "imagePart image_response = Some \<lparr>data = ''BBBB'', mimeType = ''image/png''\<rparr>"
  by (simp add: image_response_def imagePart_def index_opt_def find_inline_def textPart_def
      inlinePart_def)


subsection \<open>Validator\<close>

text \<open>
  C2. A selected file becomes the image of its slot if and only if its declared MIME type
  is one of image/jpeg, image/png, image/webp (the image slot of the outfit, beauty,
  social and doodle tools; every slot of the ID photo tool; the logo slot of the poster
  tool). On any other declared type the unsupported-file error is set, and the slot's
  image and payload are cleared, so the file is not stored and what the slot held before
  is gone. For an accepted file whose read succeeds, the payload stored is the text after
  the first comma of the data URL.
\<close>

theorem C2_validator_allow_list:
  fixes s :: "'a tool_state_scheme" and t :: id_state and p :: poster_state
  shows "(originalImage (handleFileChange (Some f) rd s) = Some f
            \<longleftrightarrow> file_type f \<in> {''image/jpeg'', ''image/png'', ''image/webp''})
       \<and> (slot_image sl (createHandleFileChange sl (Some f) rd t) = Some f
            \<longleftrightarrow> file_type f \<in> {''image/jpeg'', ''image/png'', ''image/webp''})
       \<and> (logoImage (handleLogoChange (Some f) rd p) = Some f
            \<longleftrightarrow> file_type f \<in> {''image/jpeg'', ''image/png'', ''image/webp''})
       \<and> (file_type f \<notin> {''image/jpeg'', ''image/png'', ''image/webp''} \<longrightarrow>
             error (handleFileChange (Some f) rd s) = Some UNSUPPORTED_FILE
           \<and> originalImage (handleFileChange (Some f) rd s) = None
           \<and> originalImageBase64 (handleFileChange (Some f) rd s) = None
           \<and> error (createHandleFileChange sl (Some f) rd t) = Some (id_unsupported (fileType sl))
           \<and> slot_image sl (createHandleFileChange sl (Some f) rd t) = None
           \<and> slot_base64 sl (createHandleFileChange sl (Some f) rd t) = None
           \<and> error (handleLogoChange (Some f) rd p) = Some UNSUPPORTED_LOGO
           \<and> logoImage (handleLogoChange (Some f) rd p) = None
           \<and> logoImageBase64 (handleLogoChange (Some f) rd p) = None)
       \<and> (file_type f \<in> {''image/jpeg'', ''image/png'', ''image/webp''} \<longrightarrow>
             originalImageBase64 (handleFileChange (Some f) (ReadOk url) s)
               = index_opt (split_on CHR '','' url) 1
           \<and> slot_base64 sl (createHandleFileChange sl (Some f) (ReadOk url) t)
               = index_opt (split_on CHR '','' url) 1
           \<and> logoImageBase64 (handleLogoChange (Some f) (ReadOk url) p)
               = index_opt (split_on CHR '','' url) 1)"
proof -
  have a: "(originalImage (handleFileChange (Some f) rd s) = Some f
            \<longleftrightarrow> file_type f \<in> {''image/jpeg'', ''image/png'', ''image/webp''})
       \<and> (logoImage (handleLogoChange (Some f) rd p) = Some f
            \<longleftrightarrow> file_type f \<in> {''image/jpeg'', ''image/png'', ''image/webp''})
       \<and> (file_type f \<notin> {''image/jpeg'', ''image/png'', ''image/webp''} \<longrightarrow>
             error (handleFileChange (Some f) rd s) = Some UNSUPPORTED_FILE
           \<and> originalImage (handleFileChange (Some f) rd s) = None
           \<and> originalImageBase64 (handleFileChange (Some f) rd s) = None
           \<and> error (handleLogoChange (Some f) rd p) = Some UNSUPPORTED_LOGO
           \<and> logoImage (handleLogoChange (Some f) rd p) = None
           \<and> logoImageBase64 (handleLogoChange (Some f) rd p) = None)
       \<and> (file_type f \<in> {''image/jpeg'', ''image/png'', ''image/webp''} \<longrightarrow>
             originalImageBase64 (handleFileChange (Some f) (ReadOk url) s)
               = index_opt (split_on CHR '','' url) 1
           \<and> logoImageBase64 (handleLogoChange (Some f) (ReadOk url) p)
               = index_opt (split_on CHR '','' url) 1)"
    by (cases rd) (auto simp: file_defs logo_defs)
  have b: "(slot_image sl (createHandleFileChange sl (Some f) rd t) = Some f
            \<longleftrightarrow> file_type f \<in> {''image/jpeg'', ''image/png'', ''image/webp''})
       \<and> (file_type f \<notin> {''image/jpeg'', ''image/png'', ''image/webp''} \<longrightarrow>
           error (createHandleFileChange sl (Some f) rd t) = Some (id_unsupported (fileType sl))
           \<and> slot_image sl (createHandleFileChange sl (Some f) rd t) = None
           \<and> slot_base64 sl (createHandleFileChange sl (Some f) rd t) = None)
       \<and> (file_type f \<in> {''image/jpeg'', ''image/png'', ''image/webp''} \<longrightarrow>
           slot_base64 sl (createHandleFileChange sl (Some f) (ReadOk url) t)
               = index_opt (split_on CHR '','' url) 1)"
    by (cases sl; cases rd) (auto simp: file_defs id_file_defs)
  from a b show ?thesis by blast
qed

theorem C2_validator_allow_list_witness:
  "file_type gif_file \<notin> {''image/jpeg'', ''image/png'', ''image/webp''}
   \<and> error (handleFileChange (Some gif_file) ReadError social_loaded) = Some UNSUPPORTED_FILE
   \<and> originalImage (handleFileChange (Some gif_file) ReadError social_loaded) = None
   \<and> originalImageBase64 (handleFileChange (Some gif_file) ReadError social_loaded) = None
   \<and> error (createHandleFileChange Portrait (Some gif_file) ReadError id_loaded)
        = Some (id_unsupported (fileType Portrait))
   \<and> slot_image Portrait (createHandleFileChange Portrait (Some gif_file) ReadError id_loaded) = None
   \<and> slot_base64 Portrait (createHandleFileChange Portrait (Some gif_file) ReadError id_loaded) = None
   \<and> logoImage (handleLogoChange (Some gif_file) ReadError poster_with_logo) = None
   \<and> file_type jpeg_file \<in> {''image/jpeg'', ''image/png'', ''image/webp''}
   \<and> originalImage (handleFileChange (Some jpeg_file) jpeg_read social_init) = Some jpeg_file
   \<and> originalImageBase64
        (handleFileChange (Some jpeg_file) (ReadOk ''data:image/jpeg;base64,AAAA'') social_init)
        = Some ''AAAA''
   \<and> slot_image Portrait (createHandleFileChange Portrait (Some jpeg_file) jpeg_read id_init)
        = Some jpeg_file
   \<and> logoImage (handleLogoChange (Some jpeg_file) jpeg_read poster_init) = Some jpeg_file"
  using C2_validator_allow_list [of gif_file ReadError social_loaded Portrait id_loaded
      poster_with_logo "[]"]
    C2_validator_allow_list [of jpeg_file jpeg_read social_init Portrait id_init poster_init
      "''data:image/jpeg;base64,AAAA''"]
  by (simp add: gif_file_def jpeg_file_def index_opt_def)

lemma id_done_eq:
  "id_done = id_init\<lparr>originalImage := Some jpeg_file, originalImageBase64 := Some ''AAAA'',
     generatedImageBase64 := Some ''BBBB''\<rparr>"
  by (simp add: id_done_def id_loaded_eq id_handleGenerateClick_def handler_defs id_missing_def
      image_missing_def truthy_def imagePart_image_response id_init_def)

text \<open>
  C8 (as the code has it). When a file of a supported type is selected, the handler
  leaves no error behind in any tool. The outfit, beauty, social and doodle tools also
  clear the generated image; the ID photo tool (every slot) and the poster tool's logo
  slot leave the generated result as it was.
\<close>

theorem C8_acceptance_clears_error:
  fixes s :: social_state and o' :: outfit_state and b :: beauty_state and d :: doodle_state
    and t :: id_state and p :: poster_state
  assumes "file_type f \<in> {''image/jpeg'', ''image/png'', ''image/webp''}"
  shows "error (handleFileChange (Some f) rd s) = None
       \<and> generatedImageBase64 (handleFileChange (Some f) rd s) = None
       \<and> error (handleFileChange (Some f) rd o') = None
       \<and> generatedImageBase64 (handleFileChange (Some f) rd o') = None
       \<and> error (handleFileChange (Some f) rd b) = None
       \<and> generatedImageBase64 (handleFileChange (Some f) rd b) = None
       \<and> error (handleFileChange (Some f) rd d) = None
       \<and> generatedImageBase64 (handleFileChange (Some f) rd d) = None
       \<and> error (createHandleFileChange sl (Some f) rd t) = None
       \<and> generatedImageBase64 (createHandleFileChange sl (Some f) rd t) = generatedImageBase64 t
       \<and> error (handleLogoChange (Some f) rd p) = None
       \<and> generatedImages (handleLogoChange (Some f) rd p) = generatedImages p"
  using assms
  by (cases sl; cases rd) (auto simp: file_defs id_file_defs logo_defs)

theorem C8_acceptance_clears_error_witness:
  "file_type jpeg_file \<in> {''image/jpeg'', ''image/png'', ''image/webp''}
   \<and> error (handleFileChange (Some jpeg_file) jpeg_read
         (social_loaded\<lparr>error := Some UNSUPPORTED_FILE, generatedImageBase64 := Some ''BBBB''\<rparr>)) = None
   \<and> generatedImageBase64 (handleFileChange (Some jpeg_file) jpeg_read
         (social_loaded\<lparr>error := Some UNSUPPORTED_FILE, generatedImageBase64 := Some ''BBBB''\<rparr>)) = None
   \<and> error (createHandleFileChange Brooch (Some jpeg_file) jpeg_read
         (id_done\<lparr>error := Some (id_unsupported ''brooch'')\<rparr>)) = None
   \<and> error (handleLogoChange (Some jpeg_file) jpeg_read
         (poster_init\<lparr>error := Some UNSUPPORTED_LOGO\<rparr>)) = None"
  using C8_acceptance_clears_error [of jpeg_file jpeg_read
      "social_loaded\<lparr>error := Some UNSUPPORTED_FILE, generatedImageBase64 := Some ''BBBB''\<rparr>"
      outfit_init beauty_init doodle_init Brooch
      "id_done\<lparr>error := Some (id_unsupported ''brooch'')\<rparr>"
      "poster_init\<lparr>error := Some UNSUPPORTED_LOGO\<rparr>"]
  by (simp add: jpeg_file_def)


text \<open>
  The ID photo tool after a successful generation: selecting a new supported portrait
  is accepted, and the earlier generated image is still held.
\<close>

theorem C8_counterexample:
  "file_type jpeg_file \<in> {''image/jpeg'', ''image/png'', ''image/webp''}
   \<and> generatedImageBase64 id_done = Some ''BBBB''
   \<and> slot_image Portrait (createHandleFileChange Portrait (Some jpeg_file) jpeg_read id_done)
        = Some jpeg_file
   \<and> generatedImageBase64 (createHandleFileChange Portrait (Some jpeg_file) jpeg_read id_done)
        = Some ''BBBB''"
  by (simp add: id_done_eq id_init_def file_defs id_file_defs jpeg_file_def jpeg_read_def)


text \<open>
  C9 (as the code has it). When a file of an unsupported type is selected, the handler
  sets the unsupported-file error and clears the image and payload of that slot. In the
  outfit, beauty, social and doodle tools nothing else changes except that the generated
  image is cleared too; in the poster tool nothing else changes; in the ID photo tool the
  other two slots, the attire parameters, the generated image and the loading flag are
  unchanged.
\<close>

theorem C9_rejection_clears_slot:
  fixes s :: "'a tool_state_scheme" and t :: id_state and p :: poster_state
  assumes "file_type f \<notin> {''image/jpeg'', ''image/png'', ''image/webp''}"
  shows "handleFileChange (Some f) rd s =
           s\<lparr>error := Some UNSUPPORTED_FILE, originalImage := None, originalImageBase64 := None,
             generatedImageBase64 := None\<rparr>
       \<and> handleLogoChange (Some f) rd p =
           p\<lparr>error := Some UNSUPPORTED_LOGO, logoImage := None, logoImageBase64 := None\<rparr>
       \<and> error (createHandleFileChange sl (Some f) rd t) = Some (id_unsupported (fileType sl))
       \<and> slot_image sl (createHandleFileChange sl (Some f) rd t) = None
       \<and> slot_base64 sl (createHandleFileChange sl (Some f) rd t) = None
       \<and> (\<forall>sl'. sl' \<noteq> sl \<longrightarrow>
             slot_image sl' (createHandleFileChange sl (Some f) rd t) = slot_image sl' t
           \<and> slot_base64 sl' (createHandleFileChange sl (Some f) rd t) = slot_base64 sl' t)
       \<and> generatedImageBase64 (createHandleFileChange sl (Some f) rd t) = generatedImageBase64 t
       \<and> isLoading (createHandleFileChange sl (Some f) rd t) = isLoading t
       \<and> suitColor (createHandleFileChange sl (Some f) rd t) = suitColor t
       \<and> shirtColor (createHandleFileChange sl (Some f) rd t) = shirtColor t
       \<and> hasTie (createHandleFileChange sl (Some f) rd t) = hasTie t
       \<and> tieColor (createHandleFileChange sl (Some f) rd t) = tieColor t"
proof -
  have a: "handleFileChange (Some f) rd s =
           s\<lparr>error := Some UNSUPPORTED_FILE, originalImage := None, originalImageBase64 := None,
             generatedImageBase64 := None\<rparr>"
    using assms by (simp add: file_defs)
  have a': "handleLogoChange (Some f) rd p =
           p\<lparr>error := Some UNSUPPORTED_LOGO, logoImage := None, logoImageBase64 := None\<rparr>"
    using assms by (simp add: file_defs logo_defs)
  have b: "createHandleFileChange sl (Some f) rd t =
      setBase64 sl None (setImage sl None (t\<lparr>error := Some (id_unsupported (fileType sl))\<rparr>))"
    using assms
    by (simp add: createHandleFileChange_def createHandleFileChange_sync_def awaits_read_def
        array_includes_def SUPPORTED_MIME_TYPES_def)
  have c: "\<forall>sl'. sl' \<noteq> sl \<longrightarrow>
             slot_image sl' (createHandleFileChange sl (Some f) rd t) = slot_image sl' t
           \<and> slot_base64 sl' (createHandleFileChange sl (Some f) rd t) = slot_base64 sl' t"
  proof (intro allI impI)
    fix sl' assume "sl' \<noteq> sl"
    then show "slot_image sl' (createHandleFileChange sl (Some f) rd t) = slot_image sl' t
           \<and> slot_base64 sl' (createHandleFileChange sl (Some f) rd t) = slot_base64 sl' t"
      unfolding b by (cases sl; cases sl') (simp_all add: setImage_def setBase64_def slot_image_def slot_base64_def)
  qed
  have d: "error (createHandleFileChange sl (Some f) rd t) = Some (id_unsupported (fileType sl))
       \<and> slot_image sl (createHandleFileChange sl (Some f) rd t) = None
       \<and> slot_base64 sl (createHandleFileChange sl (Some f) rd t) = None
       \<and> generatedImageBase64 (createHandleFileChange sl (Some f) rd t) = generatedImageBase64 t
       \<and> isLoading (createHandleFileChange sl (Some f) rd t) = isLoading t
       \<and> suitColor (createHandleFileChange sl (Some f) rd t) = suitColor t
       \<and> shirtColor (createHandleFileChange sl (Some f) rd t) = shirtColor t
       \<and> hasTie (createHandleFileChange sl (Some f) rd t) = hasTie t
       \<and> tieColor (createHandleFileChange sl (Some f) rd t) = tieColor t"
    unfolding b by (cases sl) (simp_all add: setImage_def setBase64_def slot_image_def slot_base64_def)
  from a a' c d show ?thesis by simp
qed

theorem C9_rejection_clears_slot_witness:
  "file_type gif_file \<notin> {''image/jpeg'', ''image/png'', ''image/webp''}
   \<and> handleFileChange (Some gif_file) ReadError social_loaded =
        social_init\<lparr>error := Some UNSUPPORTED_FILE\<rparr>
   \<and> slot_image Brooch (createHandleFileChange Brooch (Some gif_file) ReadError id_with_brooch) = None
   \<and> slot_image Portrait (createHandleFileChange Brooch (Some gif_file) ReadError id_with_brooch)
        = Some jpeg_file"
  using C9_rejection_clears_slot [of gif_file ReadError social_loaded poster_init Brooch
      id_with_brooch]
  by (simp add: gif_file_def social_loaded_eq social_init_def id_with_brooch_def id_loaded_eq
      id_init_def file_defs id_file_defs png_file_def png_read_def)


text \<open>
  A slot holding an accepted JPEG does not keep it when a GIF is selected next.
\<close>

theorem C9_counterexample:
  "file_type gif_file \<notin> {''image/jpeg'', ''image/png'', ''image/webp''}
   \<and> originalImage social_loaded = Some jpeg_file
   \<and> originalImage (handleFileChange (Some gif_file) ReadError social_loaded) = None
   \<and> slot_image Portrait id_loaded = Some jpeg_file
   \<and> slot_image Portrait (createHandleFileChange Portrait (Some gif_file) ReadError id_loaded) = None"
  by (simp add: social_loaded_eq id_loaded_eq social_init_def id_init_def file_defs id_file_defs
      gif_file_def)

subsection \<open>The ID photo prompt\<close>

text \<open>
  Where a pattern can occur in a concatenation: inside one of the two texts, or across
  the seam. The two lemmas exclude the seam by looking at the character before it, or at
  the two characters after it.
\<close>

lemma no_straddle_after:
  assumes x: "\<not> sublist P (x @ l)" and y: "\<not> sublist P y"
    and l: "l \<noteq> []" and c: "last l \<notin> set (butlast P)"
  shows "\<not> sublist P ((x @ l) @ y)"
proof
  assume "sublist P ((x @ l) @ y)"
  then obtain p1 p2 where p: "P = p1 @ p2" "suffix p1 (x @ l)" "prefix p2 y"
    using x y by (auto simp: sublist_append simp del: append_assoc)
  have "p2 \<noteq> []"
  proof
    assume "p2 = []"
    with p have "suffix P (x @ l)" by simp
    then have "sublist P (x @ l)" by (rule suffix_imp_sublist)
    with x show False by simp
  qed
  have "p1 \<noteq> []"
  proof
    assume "p1 = []"
    with p have "prefix P y" by simp
    then have "sublist P y" by (rule prefix_imp_sublist)
    with y show False by simp
  qed
  from p(2) obtain z where z: "x @ l = z @ p1" by (auto simp: suffix_def)
  with \<open>p1 \<noteq> []\<close> l have "last p1 = last l"
    by (metis last_appendR)
  moreover have "last p1 \<in> set (butlast P)"
    using \<open>p1 \<noteq> []\<close> \<open>p2 \<noteq> []\<close> p(1) by (simp add: butlast_append)
  ultimately show False using c by simp
qed

lemma no_straddle_before:
  assumes x: "\<not> sublist P x" and y: "\<not> sublist P y"
    and len: "2 \<le> length y" and two: "\<not> sublist (take 2 y) P" and c: "hd y \<noteq> last P"
  shows "\<not> sublist P (x @ y)"
proof
  assume "sublist P (x @ y)"
  then obtain p1 p2 where p: "P = p1 @ p2" "suffix p1 x" "prefix p2 y"
    using x y by (auto simp: sublist_append)
  have "p2 \<noteq> []"
  proof
    assume "p2 = []"
    with p have "suffix P x" by simp
    then have "sublist P x" by (rule suffix_imp_sublist)
    with x show False by simp
  qed
  from len obtain c1 c2 y' where yy: "y = c1 # c2 # y'"
    by (cases y; cases "tl y") auto
  show False
  proof (cases "length p2 = 1")
    case True
    then obtain a where a: "p2 = [a]" by (cases p2) auto
    with p(3) yy have "a = c1" by simp
    with a p(1) have "last P = c1" by simp
    with c yy show False by simp
  next
    case False
    with \<open>p2 \<noteq> []\<close> obtain a b r where r: "p2 = a # b # r"
      by (cases p2; cases "tl p2") auto
    with p(3) yy have "a = c1" "b = c2" by simp_all
    with r p(1) have "P = p1 @ [c1, c2] @ r" by simp
    then have "sublist [c1, c2] P" by (auto simp: sublist_def)
    with two yy show False by simp
  qed
qed

lemma id_prompt_no_background:
  assumes "held_image (backgroundImage t) (backgroundImageBase64 t) = None"
  shows "id_promptText t =
     ID_INTRO @ ID_ATTIRE_HEADING @ id_suit_line (suitColor t) @ id_shirt_line (shirtColor t)
     @ (if hasTie t then id_tie_line (tieColor t) else ID_NO_TIE_LINE)
     @ ID_BACKGROUND_HEADING @ ID_WHITE_BACKGROUND_LINE
     @ (case held_image (broochImage t) (broochImageBase64 t) of
          None \<Rightarrow> [] | Some p \<Rightarrow> ID_BROOCH_SECTION)
     @ ID_FINAL"
  using assms
  by (simp add: id_promptText_def id_build_def id_brooch_def id_background_def id_attire_def
      Let_def split: option.split)

lemma second_image_free_upto_shirt:
  assumes suit: "\<not> sublist ''second image'' suit" and shirt: "\<not> sublist ''second image'' shirt"
  shows "\<not> sublist ''second image''
           (((((ID_INTRO @ ID_ATTIRE_HEADING) @ ID_SUIT_PRE) @ suit) @ (ID_SUIT_POST @ ID_SHIRT_PRE)) @ shirt)"
proof -
  have a0: "\<not> sublist ''second image'' ((ID_INTRO @ ID_ATTIRE_HEADING) @ ID_SUIT_PRE)"
    by code_simp
  have a1: "\<not> sublist ''second image'' (((ID_INTRO @ ID_ATTIRE_HEADING) @ ID_SUIT_PRE) @ suit)"
    by (rule no_straddle_after [OF a0 suit]) (simp_all add: ID_SUIT_PRE_def)
  have b0: "\<not> sublist ''second image'' (ID_SUIT_POST @ ID_SHIRT_PRE)"
    by code_simp
  have a2: "\<not> sublist ''second image''
      ((((ID_INTRO @ ID_ATTIRE_HEADING) @ ID_SUIT_PRE) @ suit) @ (ID_SUIT_POST @ ID_SHIRT_PRE))"
    by (rule no_straddle_before [OF a1 b0]) (simp_all add: ID_SUIT_POST_def ID_SHIRT_PRE_def sublist_code prefix_code)
  have a2': "\<not> sublist ''second image''
      (((((ID_INTRO @ ID_ATTIRE_HEADING) @ ID_SUIT_PRE) @ suit) @ ID_SUIT_POST) @ ID_SHIRT_PRE)"
    using a2 by simp
  have a3: "\<not> sublist ''second image''
      ((((((ID_INTRO @ ID_ATTIRE_HEADING) @ ID_SUIT_PRE) @ suit) @ ID_SUIT_POST) @ ID_SHIRT_PRE) @ shirt)"
    by (rule no_straddle_after [OF a2' shirt]) (simp_all add: ID_SHIRT_PRE_def)
  then show ?thesis by simp
qed

lemma second_image_free_no_tie:
  assumes suit: "\<not> sublist ''second image'' suit" and shirt: "\<not> sublist ''second image'' shirt"
    and rest: "\<not> sublist ''second image'' (ID_SHIRT_POST @ T)"
  shows "\<not> sublist ''second image''
           (ID_INTRO @ ID_ATTIRE_HEADING @ id_suit_line suit @ id_shirt_line shirt @ T)"
proof -
  have "\<not> sublist ''second image''
      ((((((ID_INTRO @ ID_ATTIRE_HEADING) @ ID_SUIT_PRE) @ suit) @ (ID_SUIT_POST @ ID_SHIRT_PRE)) @ shirt)
        @ (ID_SHIRT_POST @ T))"
    by (rule no_straddle_before [OF second_image_free_upto_shirt [OF suit shirt] rest])
       (simp_all add: ID_SHIRT_POST_def sublist_code prefix_code)
  then show ?thesis by (simp add: id_suit_line_def id_shirt_line_def)
qed

lemma second_image_free_tie:
  assumes suit: "\<not> sublist ''second image'' suit" and shirt: "\<not> sublist ''second image'' shirt"
    and tie: "\<not> sublist ''second image'' tie"
    and rest: "\<not> sublist ''second image'' (ID_TIE_POST @ T)"
  shows "\<not> sublist ''second image''
           (ID_INTRO @ ID_ATTIRE_HEADING @ id_suit_line suit @ id_shirt_line shirt
            @ id_tie_line tie @ T)"
proof -
  let ?upto = "(((((ID_INTRO @ ID_ATTIRE_HEADING) @ ID_SUIT_PRE) @ suit) @ (ID_SUIT_POST @ ID_SHIRT_PRE)) @ shirt)"
  have c0: "\<not> sublist ''second image'' (ID_SHIRT_POST @ ID_TIE_PRE)"
    by code_simp
  have c1: "\<not> sublist ''second image'' (?upto @ (ID_SHIRT_POST @ ID_TIE_PRE))"
    by (rule no_straddle_before [OF second_image_free_upto_shirt [OF suit shirt] c0])
       (simp_all add: ID_SHIRT_POST_def ID_TIE_PRE_def sublist_code prefix_code)
  have c1': "\<not> sublist ''second image'' ((?upto @ ID_SHIRT_POST) @ ID_TIE_PRE)"
    using c1 by simp
  have c2: "\<not> sublist ''second image'' (((?upto @ ID_SHIRT_POST) @ ID_TIE_PRE) @ tie)"
    by (rule no_straddle_after [OF c1' tie]) (simp_all add: ID_TIE_PRE_def)
  have c3: "\<not> sublist ''second image'' ((((?upto @ ID_SHIRT_POST) @ ID_TIE_PRE) @ tie) @ (ID_TIE_POST @ T))"
    by (rule no_straddle_before [OF c2 rest]) (simp_all add: ID_TIE_POST_def sublist_code prefix_code)
  then show ?thesis by (simp add: id_suit_line_def id_shirt_line_def id_tie_line_def)
qed

lemma tails_free:
  "\<not> sublist ''second image''
     (ID_TIE_POST @ ID_BACKGROUND_HEADING @ ID_WHITE_BACKGROUND_LINE @ ID_FINAL)"
  "\<not> sublist ''second image''
     (ID_TIE_POST @ ID_BACKGROUND_HEADING @ ID_WHITE_BACKGROUND_LINE @ ID_BROOCH_SECTION @ ID_FINAL)"
  "\<not> sublist ''second image''
     (ID_SHIRT_POST @ ID_NO_TIE_LINE @ ID_BACKGROUND_HEADING @ ID_WHITE_BACKGROUND_LINE @ ID_FINAL)"
  "\<not> sublist ''second image''
     (ID_SHIRT_POST @ ID_NO_TIE_LINE @ ID_BACKGROUND_HEADING @ ID_WHITE_BACKGROUND_LINE
      @ ID_BROOCH_SECTION @ ID_FINAL)"
  by code_simp+

lemma id_prompt_second_image_free:
  assumes bg: "held_image (backgroundImage t) (backgroundImageBase64 t) = None"
    and suit: "\<not> sublist ''second image'' (suitColor t)"
    and shirt: "\<not> sublist ''second image'' (shirtColor t)"
    and tie: "\<not> sublist ''second image'' (tieColor t)"
  shows "\<not> sublist ''second image'' (id_promptText t)"
proof (cases "hasTie t")
  case True
  show ?thesis
  proof (cases "held_image (broochImage t) (broochImageBase64 t)")
    case None
    with True second_image_free_tie [OF suit shirt tie tails_free(1)] show ?thesis
      by (simp add: id_prompt_no_background [OF bg])
  next
    case (Some p)
    with True second_image_free_tie [OF suit shirt tie tails_free(2)] show ?thesis
      by (simp add: id_prompt_no_background [OF bg])
  qed
next
  case False
  show ?thesis
  proof (cases "held_image (broochImage t) (broochImageBase64 t)")
    case None
    with False second_image_free_no_tie [OF suit shirt tails_free(3)] show ?thesis
      by (simp add: id_prompt_no_background [OF bg])
  next
    case (Some p)
    with False second_image_free_no_tie [OF suit shirt tails_free(4)] show ?thesis
      by (simp add: id_prompt_no_background [OF bg])
  qed
qed


lemma held_image_None_iff: "held_image i b = None \<longleftrightarrow> i = None \<or> \<not> truthy b"
  by (auto simp: held_image_def truthy_def split: option.splits)

lemma id_build_parts:
  "id_build t ps =
     (ps @ (case held_image (backgroundImage t) (backgroundImageBase64 t) of
              None \<Rightarrow> [] | Some p \<Rightarrow> [p])
         @ (case held_image (broochImage t) (broochImageBase64 t) of
              None \<Rightarrow> [] | Some p \<Rightarrow> [p]),
      id_promptText t)"
  by (simp add: id_promptText_def id_build_def id_brooch_def id_background_def Let_def
      split: option.split)

lemma id_request_parts:
  assumes "originalImage t = Some f" and "originalImageBase64 t = Some b" and "b \<noteq> []"
  shows "id_request t = Some (generateContent_request
           ([inlinePart b (file_type f)]
            @ (case held_image (backgroundImage t) (backgroundImageBase64 t) of
                 None \<Rightarrow> [] | Some p \<Rightarrow> [p])
            @ (case held_image (broochImage t) (broochImageBase64 t) of
                 None \<Rightarrow> [] | Some p \<Rightarrow> [p])
            @ [textPart (id_promptText t)]))"
  using assms
  by (simp add: id_request_def id_missing_def image_missing_def truthy_def id_build_parts)

lemma white_line_literal:
  "sublist ''solid, pure **white color** (#FFFFFF)'' ID_WHITE_BACKGROUND_LINE"
  by code_simp

lemma brooch_section_literal:
  "sublist ''Take the **third image (the brooch)**'' ID_BROOCH_SECTION"
  by code_simp


text \<open>
  C6 (as the code has it). When no background image is held (no file, or no payload),
  the prompt contains the white-background instruction as the code writes it, with the
  emphasis marks: "solid, pure **white color** (#FFFFFF)". Unless one of the three colour
  texts typed by the user itself contains the words "second image", the prompt does not
  contain them; and the request carries the portrait, the brooch if one is held, and the
  prompt, with no background image part.
\<close>

theorem C6_white_background_fallback:
  assumes "backgroundImage t = None \<or> \<not> truthy (backgroundImageBase64 t)"
  shows "sublist ''solid, pure **white color** (#FFFFFF)'' (id_promptText t)
       \<and> (\<not> sublist ''second image'' (suitColor t) \<and> \<not> sublist ''second image'' (shirtColor t)
            \<and> \<not> sublist ''second image'' (tieColor t)
           \<longrightarrow> \<not> sublist ''second image'' (id_promptText t))
       \<and> (\<forall>f b. originalImage t = Some f \<and> originalImageBase64 t = Some b \<and> b \<noteq> [] \<longrightarrow>
             id_request t = Some (generateContent_request
               ([inlinePart b (file_type f)]
                @ (case held_image (broochImage t) (broochImageBase64 t) of
                     None \<Rightarrow> [] | Some p \<Rightarrow> [p])
                @ [textPart (id_promptText t)])))"
proof -
  from assms have bg: "held_image (backgroundImage t) (backgroundImageBase64 t) = None"
    by (simp add: held_image_None_iff)
  have "sublist ''solid, pure **white color** (#FFFFFF)'' (id_promptText t)"
    using white_line_literal
    by (simp add: id_prompt_no_background [OF bg] sublist_append)
  moreover have "\<not> sublist ''second image'' (suitColor t) \<and> \<not> sublist ''second image'' (shirtColor t)
            \<and> \<not> sublist ''second image'' (tieColor t)
           \<longrightarrow> \<not> sublist ''second image'' (id_promptText t)"
    using id_prompt_second_image_free [OF bg] by blast
  moreover have "\<forall>f b. originalImage t = Some f \<and> originalImageBase64 t = Some b \<and> b \<noteq> [] \<longrightarrow>
             id_request t = Some (generateContent_request
               ([inlinePart b (file_type f)]
                @ (case held_image (broochImage t) (broochImageBase64 t) of
                     None \<Rightarrow> [] | Some p \<Rightarrow> [p])
                @ [textPart (id_promptText t)]))"
    using id_request_parts [of t] bg by simp
  ultimately show ?thesis by blast
qed

lemma default_colours_free:
  "\<not> sublist ''second image'' ''black''" "\<not> sublist ''second image'' ''white''"
  "\<not> sublist ''second image'' ''deep blue''"
  by code_simp+

theorem C6_white_background_fallback_witness:
  "(backgroundImage id_loaded = None \<or> \<not> truthy (backgroundImageBase64 id_loaded))
   \<and> sublist ''solid, pure **white color** (#FFFFFF)'' (id_promptText id_loaded)
   \<and> \<not> sublist ''second image'' (id_promptText id_loaded)
   \<and> id_request id_loaded = Some (generateContent_request
        [inlinePart ''AAAA'' ''image/jpeg'', textPart (id_promptText id_loaded)])"
proof -
  have bg: "backgroundImage id_loaded = None \<or> \<not> truthy (backgroundImageBase64 id_loaded)"
    by (simp add: id_loaded_eq id_init_def)
  have cols: "suitColor id_loaded = ''black''" "shirtColor id_loaded = ''white''"
    "tieColor id_loaded = ''deep blue''"
    by (simp_all add: id_loaded_eq id_init_def)
  have img: "originalImage id_loaded = Some jpeg_file" "originalImageBase64 id_loaded = Some ''AAAA''"
    "held_image (broochImage id_loaded) (broochImageBase64 id_loaded) = None"
    by (simp_all add: id_loaded_eq id_init_def held_image_def)
  show ?thesis
    using C6_white_background_fallback [OF bg] bg cols img default_colours_free
    by (simp add: jpeg_file_def)
qed


text \<open>
  With the default attire and no background image, the prompt does not contain the
  text "solid, pure white color (#FFFFFF)": the source sets the two words in asterisks.
\<close>

theorem C6_counterexample:
  "backgroundImage id_loaded = None
   \<and> \<not> sublist ''solid, pure white color (#FFFFFF)'' (id_promptText id_loaded)"
proof
  show "backgroundImage id_loaded = None" by (simp add: id_loaded_eq id_init_def)
  show "\<not> sublist ''solid, pure white color (#FFFFFF)'' (id_promptText id_loaded)"
    by code_simp
qed


text \<open>
  C10. With a portrait and a brooch held and no background image, the request has three
  parts: the first carries the portrait as inline data, the second the brooch as inline
  data, the third the prompt as text; and the prompt tells the model to take the
  "third image (the brooch)".
\<close>

theorem C10_brooch_called_third_image:
  assumes "originalImage t = Some f" and "originalImageBase64 t = Some b" and "b \<noteq> []"
    and "broochImage t = Some bf" and "broochImageBase64 t = Some bb" and "bb \<noteq> []"
    and "backgroundImage t = None \<or> \<not> truthy (backgroundImageBase64 t)"
  shows "id_request t = Some (generateContent_request
           [inlinePart b (file_type f), inlinePart bb (file_type bf), textPart (id_promptText t)])
       \<and> map_option (\<lambda>req. map inlineData (request_parts req)) (id_request t) =
           Some [Some \<lparr>data = b, mimeType = file_type f\<rparr>,
                 Some \<lparr>data = bb, mimeType = file_type bf\<rparr>, None]
       \<and> map_option (\<lambda>req. map part_text (request_parts req)) (id_request t) =
           Some [None, None, Some (id_promptText t)]
       \<and> map_option model (id_request t) = Some ''gemini-2.5-flash-image-preview''
       \<and> sublist ''Take the **third image (the brooch)**'' (id_promptText t)"
proof -
  from assms(7) have bg: "held_image (backgroundImage t) (backgroundImageBase64 t) = None"
    by (simp add: held_image_None_iff)
  have br: "held_image (broochImage t) (broochImageBase64 t) = Some (inlinePart bb (file_type bf))"
    using assms(4-6) by (simp add: held_image_def)
  have req: "id_request t = Some (generateContent_request
           [inlinePart b (file_type f), inlinePart bb (file_type bf), textPart (id_promptText t)])"
    using id_request_parts [OF assms(1-3)] bg br by simp
  have fields: "map_option (\<lambda>req. map inlineData (request_parts req)) (id_request t) =
           Some [Some \<lparr>data = b, mimeType = file_type f\<rparr>,
                 Some \<lparr>data = bb, mimeType = file_type bf\<rparr>, None]
       \<and> map_option (\<lambda>req. map part_text (request_parts req)) (id_request t) =
           Some [None, None, Some (id_promptText t)]
       \<and> map_option model (id_request t) = Some ''gemini-2.5-flash-image-preview''"
    unfolding req by (simp add: generateContent_request_def inlinePart_def textPart_def)
  have "sublist ''Take the **third image (the brooch)**'' (id_promptText t)"
    using brooch_section_literal br
    by (simp add: id_prompt_no_background [OF bg] sublist_append)
  with req fields show ?thesis by simp
qed

lemma id_with_brooch_eq:
  "id_with_brooch = id_init\<lparr>originalImage := Some jpeg_file, originalImageBase64 := Some ''AAAA'',
      broochImage := Some png_file, broochImageBase64 := Some ''CCCC''\<rparr>"
  by (simp add: id_with_brooch_def id_loaded_eq file_defs id_file_defs example_defs)

theorem C10_brooch_called_third_image_witness:
  "originalImage id_with_brooch = Some jpeg_file \<and> originalImageBase64 id_with_brooch = Some ''AAAA''
   \<and> broochImage id_with_brooch = Some png_file \<and> broochImageBase64 id_with_brooch = Some ''CCCC''
   \<and> backgroundImage id_with_brooch = None
   \<and> map_option (\<lambda>req. map inlineData (request_parts req)) (id_request id_with_brooch) =
        Some [Some \<lparr>data = ''AAAA'', mimeType = ''image/jpeg''\<rparr>,
              Some \<lparr>data = ''CCCC'', mimeType = ''image/png''\<rparr>, None]
   \<and> map_option (\<lambda>req. map part_text (request_parts req)) (id_request id_with_brooch) =
        Some [None, None, Some (id_promptText id_with_brooch)]
   \<and> sublist ''Take the **third image (the brooch)**'' (id_promptText id_with_brooch)"
proof -
  have h: "originalImage id_with_brooch = Some jpeg_file"
    "originalImageBase64 id_with_brooch = Some ''AAAA''" "''AAAA'' \<noteq> []"
    "broochImage id_with_brooch = Some png_file"
    "broochImageBase64 id_with_brooch = Some ''CCCC''" "''CCCC'' \<noteq> []"
    "backgroundImage id_with_brooch = None \<or> \<not> truthy (backgroundImageBase64 id_with_brooch)"
    by (simp_all add: id_with_brooch_eq id_init_def)
  have ft: "file_type jpeg_file = ''image/jpeg''" "file_type png_file = ''image/png''"
    by (simp_all add: jpeg_file_def png_file_def)
  have bg: "backgroundImage id_with_brooch = None"
    by (simp add: id_with_brooch_eq id_init_def)
  show ?thesis
    using C10_brooch_called_third_image [OF h] h(1,2,4,5) bg
    by (simp add: ft generateContent_request_def inlinePart_def textPart_def
        del: map_option_eq_Some)
qed


subsection \<open>Error, loading flag and result over whole runs\<close>

lemma run_invariant:
  assumes step: "\<And>e c c'. I c \<Longrightarrow> step e c = Some c' \<Longrightarrow> I c'"
    and init: "I c" and r: "run step es c = Some c'"
  shows "I c'"
  using init r
proof (induction es arbitrary: c)
  case Nil
  then show ?case by simp
next
  case (Cons e es)
  from Cons.prems(2) obtain c1 where c1: "step e c = Some c1" "run step es c1 = Some c'"
    by (auto split: option.splits)
  from step [OF Cons.prems(1) c1(1)] have "I c1" .
  from Cons.IH [OF this c1(2)] show ?case .
qed

lemma handleFileChange_sync_frame:
  "isLoading (handleFileChange_sync fl st) = isLoading st
   \<and> generatedImageBase64 (handleFileChange_sync fl st) = None"
  by (simp add: handleFileChange_sync_def Let_def split: option.split)

lemma handleFileChange_resume_frame:
  "isLoading (handleFileChange_resume r st) = isLoading st
   \<and> generatedImageBase64 (handleFileChange_resume r st) = generatedImageBase64 st"
  by (simp add: handleFileChange_resume_def split: option.split)

lemma createHandleFileChange_sync_frame:
  "isLoading (createHandleFileChange_sync sl fl st) = isLoading st
   \<and> generatedImageBase64 (createHandleFileChange_sync sl fl st) = generatedImageBase64 st"
  by (cases sl)
     (simp_all add: createHandleFileChange_sync_def setImage_def setBase64_def Let_def
        split: option.split)

lemma createHandleFileChange_resume_frame:
  "isLoading (createHandleFileChange_resume sl r st) = isLoading st
   \<and> generatedImageBase64 (createHandleFileChange_resume sl r st) = generatedImageBase64 st"
  by (cases sl)
     (simp_all add: createHandleFileChange_resume_def setBase64_def split: option.split)

lemma handleLogoChange_frame:
  "isLoading (handleLogoChange_sync fl p) = isLoading p
   \<and> generatedImages (handleLogoChange_sync fl p) = generatedImages p
   \<and> isLoading (handleLogoChange_resume r p) = isLoading p
   \<and> generatedImages (handleLogoChange_resume r p) = generatedImages p"
  by (simp add: handleLogoChange_sync_def handleLogoChange_resume_def Let_def split: option.split)

lemma handleGenerateClick_sync_keeps:
  "\<not> busy_with_result st \<Longrightarrow> \<not> busy_with_result (handleGenerateClick_sync missing st)"
  by (cases "missing st")
     (simp_all add: busy_with_result_def handleGenerateClick_sync_def begin_generate_def truthy_def)

lemma end_generate_idle: "\<not> isLoading (end_generate no_image outc st)"
  by (simp add: end_generate_def)

lemma tool_step_keeps:
  assumes inp: "\<And>i st. isLoading (set_input i st) = isLoading st
                  \<and> generatedImageBase64 (set_input i st) = generatedImageBase64 st"
    and inv: "\<not> busy_with_result (view c)"
    and st: "tool_step set_input missing no_image e c = Some c'"
  shows "\<not> busy_with_result (view c')"
proof (cases e)
  case (SelectFile fl)
  with st have "view c' = handleFileChange_sync fl (view c)"
    by (auto simp: tool_step_def)
  then show ?thesis
    by (simp add: busy_with_result_def handleFileChange_sync_frame truthy_def)
next
  case (ReadSettled r)
  with st have "view c' = handleFileChange_resume r (view c)"
    by (auto simp: tool_step_def split: if_splits)
  with inv show ?thesis
    by (simp add: busy_with_result_def handleFileChange_resume_frame)
next
  case (Input i)
  with st have "view c' = set_input i (view c)"
    by (auto simp: tool_step_def)
  with inv inp [of i "view c"] show ?thesis
    by (simp add: busy_with_result_def)
next
  case ClickGenerate
  with st have "view c' = handleGenerateClick_sync missing (view c)"
    by (auto simp: tool_step_def split: if_splits)
  with inv show ?thesis
    by (simp add: handleGenerateClick_sync_keeps)
next
  case (ServiceSettled outc)
  with st have "view c' = end_generate no_image outc (view c)"
    by (auto simp: tool_step_def split: if_splits)
  then show ?thesis
    by (simp add: busy_with_result_def end_generate_idle)
qed

lemma tool_run_keeps:
  assumes inp: "\<And>i st. isLoading (set_input i st) = isLoading st
                  \<and> generatedImageBase64 (set_input i st) = generatedImageBase64 st"
    and inv: "\<not> busy_with_result st0"
    and r: "run (tool_step set_input missing no_image) es (start st0) = Some c"
  shows "\<not> busy_with_result (view c)"
proof (rule run_invariant [where I = "\<lambda>c. \<not> busy_with_result (view c)", OF _ _ r])
  show "\<not> busy_with_result (view (start st0))" using inv by (simp add: start_def)
next
  fix e c c'
  assume "\<not> busy_with_result (view c)" "tool_step set_input missing no_image e c = Some c'"
  then show "\<not> busy_with_result (view c')" by (rule tool_step_keeps [OF inp])
qed

lemma social_set_keeps:
  "isLoading (social_set i s) = isLoading s
     \<and> generatedImageBase64 (social_set i s) = generatedImageBase64 s"
  by (cases i) (simp_all add: social_set_def)

lemma outfit_set_keeps:
  "isLoading (outfit_set i s) = isLoading s
     \<and> generatedImageBase64 (outfit_set i s) = generatedImageBase64 s"
  by (cases i) (simp_all add: outfit_set_def)

lemma beauty_set_keeps:
  "isLoading (beauty_set i s) = isLoading s
     \<and> generatedImageBase64 (beauty_set i s) = generatedImageBase64 s"
  by (cases i) (simp_all add: beauty_set_def)

lemma doodle_set_keeps:
  "isLoading (doodle_set i s) = isLoading s
     \<and> generatedImageBase64 (doodle_set i s) = generatedImageBase64 s"
  by (cases i) (simp_all add: doodle_set_def handlePanelCountChange_def)

lemma id_step_keeps:
  assumes inv: "\<not> busy_with_result (id_view c)" and st: "id_step e c = Some c'"
  shows "\<not> busy_with_result (id_view c')"
proof (cases e)
  case (IdSelectFile sl fl)
  with st have "id_view c' = createHandleFileChange_sync sl fl (id_view c)"
    by (auto simp: id_step_def)
  with inv show ?thesis
    by (simp add: busy_with_result_def createHandleFileChange_sync_frame)
next
  case (IdReadSettled sl r)
  with st have "id_view c' = createHandleFileChange_resume sl r (id_view c)"
    by (auto simp: id_step_def split: if_splits)
  with inv show ?thesis
    by (simp add: busy_with_result_def createHandleFileChange_resume_frame)
next
  case IdClickGenerate
  with st have "id_view c' = handleGenerateClick_sync id_missing (id_view c)"
    by (auto simp: id_step_def split: if_splits)
  with inv show ?thesis
    by (simp add: handleGenerateClick_sync_keeps)
next
  case (IdServiceSettled outc)
  with st have "id_view c' = end_generate NO_IMAGE_PHOTO outc (id_view c)"
    by (auto simp: id_step_def split: if_splits)
  then show ?thesis
    by (simp add: busy_with_result_def end_generate_idle)
qed (use st inv in \<open>auto simp: id_step_def busy_with_result_def\<close>)

lemma poster_finish_idle: "\<not> poster_busy_with_result (poster_view (poster_finish k res c))"
  by (simp add: poster_finish_def poster_end_def poster_busy_with_result_def)

lemma poster_step_keeps:
  assumes inv: "\<not> poster_busy_with_result (poster_view c)" and st: "poster_step e c = Some c'"
  shows "\<not> poster_busy_with_result (poster_view c')"
proof (cases e)
  case (LogoSelect fl)
  with st have "poster_view c' = handleLogoChange_sync fl (poster_view c)"
    by (auto simp: poster_step_def)
  with inv show ?thesis
    by (simp add: poster_busy_with_result_def handleLogoChange_frame)
next
  case (LogoReadSettled r)
  with st have "poster_view c' = handleLogoChange_resume r (poster_view c)"
    by (auto simp: poster_step_def split: if_splits)
  with inv show ?thesis
    by (simp add: poster_busy_with_result_def handleLogoChange_frame)
next
  case PosterClick
  with st inv show ?thesis
    by (auto simp: poster_step_def poster_busy_with_result_def poster_begin_def
        split: option.splits if_splits)
next
  case (Step1Settled k step1)
  with st have "(\<exists>res. c' = poster_finish k res c)
      \<or> generatedImages (poster_view c') = generatedImages (poster_view c)
        \<and> isLoading (poster_view c') = isLoading (poster_view c)"
    by (auto simp: poster_step_def
        split: option.splits if_splits poster_process.splits outcome.splits)
  with inv poster_finish_idle show ?thesis
    by (auto simp: poster_busy_with_result_def)
next
  case (Step2Settled k step2)
  with st have "\<exists>res. c' = poster_finish k res c"
    by (auto simp: poster_step_def split: option.splits poster_process.splits)
  with poster_finish_idle show ?thesis by auto
qed (use st inv in \<open>auto simp: poster_step_def poster_busy_with_result_def\<close>)

lemmas step_defs = tool_step_def start_def handleFileChange_sync_def handleFileChange_resume_def
  awaits_read_def array_includes_def SUPPORTED_MIME_TYPES_def fileToBase64_def index_opt_def
  handleGenerateClick_sync_def begin_generate_def end_generate_def image_missing_def truthy_def
  tool_trace_def tool_done_def jpeg_file_def jpeg_read_def imagePart_image_response

lemma tool_runs:
  "run social_step tool_trace (start social_init) = Some (tool_done social_init)"
  "run outfit_step tool_trace (start outfit_init) = Some (tool_done outfit_init)"
  "run beauty_step tool_trace (start beauty_init) = Some (tool_done beauty_init)"
  "run doodle_step tool_trace (start doodle_init) = Some (tool_done doodle_init)"
  by (simp_all add: social_step_def outfit_step_def beauty_step_def doodle_step_def step_defs
      social_missing_def outfit_missing_def beauty_missing_def doodle_missing_def
      social_init_def outfit_init_def beauty_init_def doodle_init_def trim_def is_white_space_def)

lemmas id_step_defs = id_step_def id_start_def id_init_def createHandleFileChange_sync_def
  createHandleFileChange_resume_def setImage_def setBase64_def id_missing_def gif_file_def
  id_unsupported_def fileType_def

lemma id_runs:
  "run id_step id_trace id_start =
     Some \<lparr>id_view = id_done, id_reads = [], id_requests = 0\<rparr>"
  "run id_step id_trace_rejected_in_flight id_start = Some id_loading_with_error"
  "run id_step id_trace_rejected_after_success id_start = Some id_result_with_error"
  by (simp_all add: id_trace_def id_trace_rejected_in_flight_def id_trace_rejected_after_success_def
      id_loading_with_error_def id_result_with_error_def id_done_eq id_loaded_eq
      id_step_defs step_defs)

lemma poster_runs: "run poster_step poster_trace poster_start = Some poster_done"
  by (simp add: poster_trace_def poster_start_def poster_done_def poster_init_def
      poster_step_def poster_missing_def poster_begin_def poster_finish_def poster_end_def
      drop_process_def index_opt_def truthy_def)


text \<open>
  C7 (as the code has it). In every state that a tool reaches from its initial state, by
  any sequence of file selections, reads, parameter changes, clicks and service answers,
  the loading flag and a non-empty generated result are never present together; and the
  moment a request is started, the tool is loading with no error message and no
  generated result. (An error message is exclusive with neither of the other two.)
\<close>

theorem C7_never_loading_with_result:
  "(run social_step es1 (start social_init) = Some c1 \<longrightarrow>
      \<not> (isLoading (view c1) \<and> truthy (generatedImageBase64 (view c1))))
   \<and> (run outfit_step es2 (start outfit_init) = Some c2 \<longrightarrow>
      \<not> (isLoading (view c2) \<and> truthy (generatedImageBase64 (view c2))))
   \<and> (run beauty_step es3 (start beauty_init) = Some c3 \<longrightarrow>
      \<not> (isLoading (view c3) \<and> truthy (generatedImageBase64 (view c3))))
   \<and> (run doodle_step es4 (start doodle_init) = Some c4 \<longrightarrow>
      \<not> (isLoading (view c4) \<and> truthy (generatedImageBase64 (view c4))))
   \<and> (run id_step es5 id_start = Some c5 \<longrightarrow>
      \<not> (isLoading (id_view c5) \<and> truthy (generatedImageBase64 (id_view c5))))
   \<and> (run poster_step es6 poster_start = Some c6 \<longrightarrow>
      \<not> (isLoading (poster_view c6) \<and> generatedImages (poster_view c6) \<noteq> []))
   \<and> isLoading (begin_generate st) \<and> error (begin_generate st) = None
   \<and> generatedImageBase64 (begin_generate st) = None
   \<and> isLoading (poster_begin p) \<and> error (poster_begin p) = None
   \<and> generatedImages (poster_begin p) = []"
proof -
  have s: "run social_step es1 (start social_init) = Some c1 \<longrightarrow> \<not> busy_with_result (view c1)"
    unfolding social_step_def
    by (auto dest!: tool_run_keeps [OF social_set_keeps, rotated]
        simp: busy_with_result_def social_init_def)
  have o: "run outfit_step es2 (start outfit_init) = Some c2 \<longrightarrow> \<not> busy_with_result (view c2)"
    unfolding outfit_step_def
    by (auto dest!: tool_run_keeps [OF outfit_set_keeps, rotated]
        simp: busy_with_result_def outfit_init_def)
  have b: "run beauty_step es3 (start beauty_init) = Some c3 \<longrightarrow> \<not> busy_with_result (view c3)"
    unfolding beauty_step_def
    by (auto dest!: tool_run_keeps [OF beauty_set_keeps, rotated]
        simp: busy_with_result_def beauty_init_def)
  have d: "run doodle_step es4 (start doodle_init) = Some c4 \<longrightarrow> \<not> busy_with_result (view c4)"
    unfolding doodle_step_def
    by (auto dest!: tool_run_keeps [OF doodle_set_keeps, rotated]
        simp: busy_with_result_def doodle_init_def)
  have i: "run id_step es5 id_start = Some c5 \<longrightarrow> \<not> busy_with_result (id_view c5)"
  proof
    assume r: "run id_step es5 id_start = Some c5"
    have "\<not> busy_with_result (id_view id_start)"
      by (simp add: id_start_def id_init_def busy_with_result_def)
    from run_invariant [where I = "\<lambda>c. \<not> busy_with_result (id_view c)", OF _ this r]
    show "\<not> busy_with_result (id_view c5)" using id_step_keeps by blast
  qed
  have q: "run poster_step es6 poster_start = Some c6 \<longrightarrow> \<not> poster_busy_with_result (poster_view c6)"
  proof
    assume r: "run poster_step es6 poster_start = Some c6"
    have "\<not> poster_busy_with_result (poster_view poster_start)"
      by (simp add: poster_start_def poster_init_def poster_busy_with_result_def)
    from run_invariant [where I = "\<lambda>c. \<not> poster_busy_with_result (poster_view c)", OF _ this r]
    show "\<not> poster_busy_with_result (poster_view c6)" using poster_step_keeps by blast
  qed
  show ?thesis
    using s o b d i q
    by (simp add: busy_with_result_def poster_busy_with_result_def begin_generate_def
        poster_begin_def)
qed

theorem C7_never_loading_with_result_witness:
  "run social_step tool_trace (start social_init) = Some (tool_done social_init)
   \<and> \<not> (isLoading (view (tool_done social_init))
         \<and> truthy (generatedImageBase64 (view (tool_done social_init))))
   \<and> run outfit_step tool_trace (start outfit_init) = Some (tool_done outfit_init)
   \<and> \<not> (isLoading (view (tool_done outfit_init))
         \<and> truthy (generatedImageBase64 (view (tool_done outfit_init))))
   \<and> run beauty_step tool_trace (start beauty_init) = Some (tool_done beauty_init)
   \<and> \<not> (isLoading (view (tool_done beauty_init))
         \<and> truthy (generatedImageBase64 (view (tool_done beauty_init))))
   \<and> run doodle_step tool_trace (start doodle_init) = Some (tool_done doodle_init)
   \<and> \<not> (isLoading (view (tool_done doodle_init))
         \<and> truthy (generatedImageBase64 (view (tool_done doodle_init))))
   \<and> run id_step id_trace id_start = Some \<lparr>id_view = id_done, id_reads = [], id_requests = 0\<rparr>
   \<and> \<not> (isLoading id_done \<and> truthy (generatedImageBase64 id_done))
   \<and> run poster_step poster_trace poster_start = Some poster_done
   \<and> \<not> (isLoading (poster_view poster_done) \<and> generatedImages (poster_view poster_done) \<noteq> [])"
  using C7_never_loading_with_result [of tool_trace "tool_done social_init"
      tool_trace "tool_done outfit_init" tool_trace "tool_done beauty_init"
      tool_trace "tool_done doodle_init" id_trace
      "\<lparr>id_view = id_done, id_reads = [], id_requests = 0\<rparr>" poster_trace poster_done
      social_init poster_init]
    tool_runs id_runs(1) poster_runs
  by simp


text \<open>
  The ID photo tool: a background file of an unsupported type selected while the request
  is in flight leaves the error message next to the loading flag; the same selection
  after a successful generation leaves it next to the generated image.
\<close>

theorem C7_counterexample:
  "run id_step id_trace_rejected_in_flight id_start = Some id_loading_with_error
   \<and> isLoading (id_view id_loading_with_error)
   \<and> error (id_view id_loading_with_error) = Some (id_unsupported ''background'')
   \<and> run id_step id_trace_rejected_after_success id_start = Some id_result_with_error
   \<and> error (id_view id_result_with_error) = Some (id_unsupported ''background'')
   \<and> generatedImageBase64 (id_view id_result_with_error) = Some ''BBBB''"
  using id_runs(2,3)
  by (simp add: id_loading_with_error_def id_result_with_error_def id_done_eq)

subsection \<open>The answer of the service\<close>














subsection \<open>Poster tool: the logo step\<close>

lemma poster_with_logo_eq:
  "poster_with_logo = poster_init\<lparr>logoImage := Some png_file, logoImageBase64 := Some ''CCCC''\<rparr>"
  by (simp add: poster_with_logo_def logo_defs file_defs example_defs poster_init_def)

lemma imagePart_text_response: "imagePart text_response = None"
  by (simp add: text_response_def imagePart_def index_opt_def find_inline_def textPart_def)

lemmas poster_defs = poster_handleGenerateClick_def poster_missing_def poster_begin_def
  poster_try_def poster_end_def addLogoToPoster_def truthy_def three_posters_def


text \<open>
  C3. Wanted: a logo-composite call that throws leaves its slot with the step-1 poster,
  and the result has as many posters as step 1 returned. The code does this only for a
  call that answers without an inline image (second half below: slot 1 keeps \<open>P2\<close>,
  three posters). A call that throws is not caught in
  \<open>addLogoToPoster\<close>: with a logo held, three posters from step 1 and the call for the
  second poster throwing, the handler ends with the error message and no poster at all.
\<close>

theorem C3_logo_call_throwing_aborts_batch:
  "logoImage poster_with_logo = Some png_file
   \<and> logoImageBase64 poster_with_logo = Some ''CCCC''
   \<and> generatedImages
        (poster_handleGenerateClick three_posters second_logo_call_throws poster_with_logo) = []
   \<and> error (poster_handleGenerateClick three_posters second_logo_call_throws poster_with_logo)
        = Some (POSTER_FAILED ''503 Service Unavailable'')
   \<and> generatedImages
        (poster_handleGenerateClick three_posters second_logo_call_refused poster_with_logo)
        = [''BBBB'', ''P2'', ''BBBB'']
   \<and> error (poster_handleGenerateClick three_posters second_logo_call_refused poster_with_logo)
        = None"
  by (simp add: poster_with_logo_eq poster_init_def poster_defs second_logo_call_throws_def
      second_logo_call_refused_def imagePart_image_response imagePart_text_response enumerate_eq_zip
      upt_rec)


subsection \<open>Prompt builders\<close>

text \<open>
  C5. Each tool's prompt is a function of the tool's parameters alone (for the ID photo
  tool also of whether a background and a brooch are held): two component states that
  agree on them give the same string, whatever their images, payloads, results, errors
  and loading flags are. The builders return a string and set no state.
\<close>

theorem C5_prompt_depends_only_on_parameters:
  "(platform s1 = platform s2 \<longrightarrow> social_buildPrompt s1 = social_buildPrompt s2)
   \<and> (clothingStyle o1 = clothingStyle o2 \<and> clothingColor o1 = clothingColor o2
        \<longrightarrow> outfit_buildPrompt o1 = outfit_buildPrompt o2)
   \<and> (beautyLevel b1 = beautyLevel b2 \<and> faceReshape b1 = faceReshape b2
        \<and> bodySlimming b1 = bodySlimming b2 \<and> chestEnhancement b1 = chestEnhancement b2
        \<and> legExtension b1 = legExtension b2 \<and> photo_filter b1 = photo_filter b2
        \<longrightarrow> beauty_buildPrompt b1 = beauty_buildPrompt b2)
   \<and> (artStyle d1 = artStyle d2 \<and> panelCount d1 = panelCount d2
        \<longrightarrow> doodle_buildPrompt d1 = doodle_buildPrompt d2)
   \<and> (industry p1 = industry p2 \<and> elements p1 = elements p2 \<and> slogan p1 = slogan p2
        \<and> style p1 = style p2
        \<longrightarrow> poster_buildPrompt p1 = poster_buildPrompt p2)
   \<and> (suitColor t1 = suitColor t2 \<and> shirtColor t1 = shirtColor t2 \<and> hasTie t1 = hasTie t2
        \<and> tieColor t1 = tieColor t2
        \<and> (held_image (backgroundImage t1) (backgroundImageBase64 t1) = None
             \<longleftrightarrow> held_image (backgroundImage t2) (backgroundImageBase64 t2) = None)
        \<and> (held_image (broochImage t1) (broochImageBase64 t1) = None
             \<longleftrightarrow> held_image (broochImage t2) (broochImageBase64 t2) = None)
        \<longrightarrow> id_promptText t1 = id_promptText t2)"
proof -
  have id: "suitColor t1 = suitColor t2 \<and> shirtColor t1 = shirtColor t2 \<and> hasTie t1 = hasTie t2
        \<and> tieColor t1 = tieColor t2
        \<and> (held_image (backgroundImage t1) (backgroundImageBase64 t1) = None
             \<longleftrightarrow> held_image (backgroundImage t2) (backgroundImageBase64 t2) = None)
        \<and> (held_image (broochImage t1) (broochImageBase64 t1) = None
             \<longleftrightarrow> held_image (broochImage t2) (broochImageBase64 t2) = None)
        \<longrightarrow> id_promptText t1 = id_promptText t2"
    by (auto simp: id_promptText_def id_build_def id_brooch_def id_background_def id_attire_def
        Let_def split: option.splits)
  show ?thesis
    using id
    by (simp add: social_buildPrompt_def outfit_buildPrompt_def beauty_buildPrompt_def
        doodle_buildPrompt_def poster_buildPrompt_def)
qed


theorem C5_prompt_depends_only_on_parameters_witness:
  "platform social_init = platform social_loaded \<and> social_init \<noteq> social_loaded
   \<and> social_buildPrompt social_init = social_buildPrompt social_loaded
   \<and> outfit_buildPrompt outfit_init = outfit_buildPrompt (outfit_init\<lparr>isLoading := True\<rparr>)
   \<and> beauty_buildPrompt beauty_init = beauty_buildPrompt (beauty_init\<lparr>isLoading := True\<rparr>)
   \<and> doodle_buildPrompt doodle_init = doodle_buildPrompt (doodle_init\<lparr>isLoading := True\<rparr>)
   \<and> poster_init \<noteq> poster_with_logo
   \<and> poster_buildPrompt poster_init = poster_buildPrompt poster_with_logo
   \<and> id_loaded \<noteq> id_done
   \<and> id_promptText id_loaded = id_promptText id_done"
  using C5_prompt_depends_only_on_parameters [of social_init social_loaded
      outfit_init "outfit_init\<lparr>isLoading := True\<rparr>"
      beauty_init "beauty_init\<lparr>isLoading := True\<rparr>"
      doodle_init "doodle_init\<lparr>isLoading := True\<rparr>"
      poster_init poster_with_logo id_loaded id_done]
  by (simp add: social_loaded_eq social_init_def poster_with_logo_eq poster_init_def
      id_loaded_eq id_done_eq id_init_def held_image_def)

end
